theory Spec2Isabelle
  imports Complex_Main
begin

section \<open>Strings and the formatting helpers of the wallet store\<close>

text \<open>
  A JavaScript string is a sequence of code units; it is modelled as a \<open>string\<close>
  (a list of characters), and \<open>length\<close> is the string's \<open>.length\<close>.

  \<open>String.prototype.slice(start, end)\<close>: a negative index counts from the end and is
  clamped at 0, a non-negative one is clamped at the length; a missing \<open>end\<close> is the
  length; the result is empty when the two cross.
\<close>

definition js_slice :: "string \<Rightarrow> int \<Rightarrow> int option \<Rightarrow> string" where
  "js_slice s start fin =
     (let len = int (length s);
          from = (if start < 0 then max (len + start) 0 else min start len);
          to = (case fin of
                  None \<Rightarrow> len
                | Some e \<Rightarrow> if e < 0 then max (len + e) 0 else min e len)
      in take (nat (to - from)) (drop (nat from) s))"

text \<open>
  \<^verbatim>\<open>const formatAddress = (address: string) => {
    return `${address.slice(0, 6)}...${address.slice(-4)}`;
  };\<close>
\<close>

definition formatAddress :: "string \<Rightarrow> string" where
  "formatAddress address =
     js_slice address 0 (Some 6) @ ''...'' @ js_slice address (- 4) None"

text \<open>
  A JavaScript Number is an IEEE-754 double: not-a-number, one of the two infinities,
  or a finite value, kept here as the exact rational it denotes (the sign of zero plays
  no part in what follows).
\<close>

datatype js_number = NaN | PosInfinity | NegInfinity | Finite rat

text \<open>The operator \<open><\<close> on Numbers: false as soon as one side is not-a-number.\<close>

fun js_less :: "js_number \<Rightarrow> js_number \<Rightarrow> bool" where
  "js_less NaN _ = False"
| "js_less _ NaN = False"
| "js_less PosInfinity _ = False"
| "js_less NegInfinity NegInfinity = False"
| "js_less NegInfinity _ = True"
| "js_less (Finite x) NegInfinity = False"
| "js_less (Finite x) PosInfinity = True"
| "js_less (Finite x) (Finite y) = (x < y)"

text \<open>
  The literal \<open>0.0001\<close> is the double nearest to one ten-thousandth, whose exact value
  is \<open>7378697629483821 / 2^66\<close>, a little above it.
\<close>

definition literal_0_0001 :: rat where
  "literal_0_0001 = 7378697629483821 / 2 ^ 66"

text \<open>The decimal digits of a natural number, most significant first; \<open>0\<close> is \<open>"0"\<close>.\<close>

definition digit_char :: "nat \<Rightarrow> char" where
  "digit_char d = ''0123456789'' ! d"

fun decimal :: "nat \<Rightarrow> string" where
  "decimal n = (if n < 10 then [digit_char n] else decimal (n div 10) @ [digit_char (n mod 10)])"

declare decimal.simps [simp del]

text \<open>
  \<open>Number.prototype.toFixed(f)\<close>, step by step as ECMAScript gives it. A value that is
  not finite is printed by name. Otherwise the sign is split off; from \<open>10^21\<close> on the
  result is the Number's ordinary string form, which is the parameter \<open>numberToString\<close>;
  below, \<open>n\<close> is the integer with \<open>n / 10^f\<close> nearest to the value (the larger one of
  two), its digits are padded on the left with zeros to \<open>f + 1\<close> characters, and the
  point goes before the last \<open>f\<close> of them.
\<close>

definition toFixed :: "(rat \<Rightarrow> string) \<Rightarrow> js_number \<Rightarrow> nat \<Rightarrow> string" where
  "toFixed numberToString num f =
     (case num of
        NaN \<Rightarrow> ''NaN''
      | PosInfinity \<Rightarrow> ''Infinity''
      | NegInfinity \<Rightarrow> ''-Infinity''
      | Finite r \<Rightarrow>
          (let s = (if r < 0 then ''-'' else '''');
               x = (if r < 0 then - r else r)
           in if x \<ge> 10 ^ 21 then s @ numberToString x
              else let n = nat \<lfloor>x * 10 ^ f + 1 / 2\<rfloor>;
                       m = decimal n;
                       m = (if f \<noteq> 0
                            then let k = length m;
                                     m = (if k \<le> f then replicate (f + 1 - k) CHR ''0'' @ m else m);
                                     k = (if k \<le> f then f + 1 else k)
                                 in take (k - f) m @ ''.'' @ drop (k - f) m
                            else m)
                   in s @ m))"

text \<open>
  \<^verbatim>\<open>const formatBalance = (balance: string) => {
    const num = parseFloat(balance);
    return num < 0.0001 ? "0" : num.toFixed(4);
  };\<close>
  The built-in \<open>parseFloat\<close> is a parameter, as is the string form of large Numbers.
\<close>

definition formatBalance :: "(string \<Rightarrow> js_number) \<Rightarrow> (rat \<Rightarrow> string) \<Rightarrow> string \<Rightarrow> string" where
  "formatBalance parseFloat numberToString bal =
     (let num = parseFloat bal
      in if js_less num (Finite literal_0_0001) then ''0'' else toFixed numberToString num 4)"

section \<open>The network table\<close>

record nativeCurrency =
  name :: string
  symbol :: string
  decimals :: nat

record network =
  chainId :: string
  chainName :: string
  nativeCurrency :: nativeCurrency
  rpcUrls :: "string list"
  blockExplorerUrls :: "string list"

datatype networkKey = ethereum | bsc | sepolia

fun NETWORKS :: "networkKey \<Rightarrow> network" where
  "NETWORKS ethereum =
     \<lparr>network.chainId = ''0x1'',
      chainName = ''Ethereum Mainnet'',
      nativeCurrency = \<lparr>name = ''Ether'', symbol = ''ETH'', decimals = 18\<rparr>,
      rpcUrls = [''https://mainnet.infura.io/v3/''],
      blockExplorerUrls = [''https://etherscan.io/'']\<rparr>"
| "NETWORKS bsc =
     \<lparr>network.chainId = ''0x38'',
      chainName = ''Binance Smart Chain'',
      nativeCurrency = \<lparr>name = ''BNB'', symbol = ''BNB'', decimals = 18\<rparr>,
      rpcUrls = [''https://bsc-dataseed1.binance.org/''],
      blockExplorerUrls = [''https://bscscan.com/'']\<rparr>"
| "NETWORKS sepolia =
     \<lparr>network.chainId = ''0xaa36a7'',
      chainName = ''Sepolia Testnet'',
      nativeCurrency = \<lparr>name = ''Sepolia Ether'', symbol = ''ETH'', decimals = 18\<rparr>,
      rpcUrls = [''https://sepolia.gateway.tenderly.co/'',
                 ''https://rpc.sepolia.org/'',
                 ''https://eth-sepolia.public.blastapi.io'',
                 ''https://sepolia.ethereum.publicnode.com''],
      blockExplorerUrls = [''https://sepolia.etherscan.io/'']\<rparr>"

section \<open>The wallet state\<close>

text \<open>The interface \<open>WalletState\<close>; \<open>string | null\<close> is a \<open>string option\<close>.\<close>

record WalletState =
  address :: "string option"
  chainId :: "string option"
  isConnected :: bool
  balance :: string
  ensName :: "string option"
  ensAvatar :: "string option"
  userDisconnected :: bool

text \<open>
  \<open>Partial<WalletState>\<close>, the argument of \<open>setWallet\<close>: every field may be absent
  (\<open>None\<close>) or carry a value of the field's type.
\<close>

record PartialWalletState =
  address_opt :: "string option option"
  chainId_opt :: "string option option"
  isConnected_opt :: "bool option"
  balance_opt :: "string option"
  ensName_opt :: "string option option"
  ensAvatar_opt :: "string option option"
  userDisconnected_opt :: "bool option"

text \<open>The state the store is created with.\<close>

definition initialState :: WalletState where
  "initialState =
     \<lparr>address = None, chainId = None, isConnected = False, balance = ''0'',
      ensName = None, ensAvatar = None, userDisconnected = False\<rparr>"

text \<open>The state invariant of the data model: connected exactly when an address is held.\<close>

definition state_inv :: "WalletState \<Rightarrow> bool" where
  "state_inv s \<longleftrightarrow> (isConnected s \<longleftrightarrow> address s \<noteq> None)"

section \<open>The environment: wallet provider and client library\<close>

text \<open>
  What a rejected promise or a thrown exception carries. The code reads only
  \<open>error.code\<close>; a \<open>TypeError\<close> (calling \<open>window.ethereum!.request\<close> when the
  provider is absent) has none.
\<close>

datatype js_error = TypeError | ProviderError "int option"

fun error_code :: "js_error \<Rightarrow> int option" where
  "error_code TypeError = None"
| "error_code (ProviderError c) = c"

text \<open>The calls \<open>window.ethereum.request({method, params})\<close> that the code issues.\<close>

datatype request =
    Eth_requestAccounts
  | Eth_chainId
  | Eth_accounts
  | Wallet_switchEthereumChain string
  | Wallet_addEthereumChain network

text \<open>A resolver object handed out by the client library's \<open>getResolver\<close>.\<close>

datatype resolver = Resolver string

text \<open>
  The provider and the client library are external. Their behaviour is a parameter:
  each call reads and may change a hidden world state \<open>'w\<close>, and either rejects
  (\<open>Inl\<close>) or resolves with a value (\<open>Inr\<close>). \<open>has_ethereum\<close> says whether
  \<open>window.ethereum\<close> is defined. \<open>provider_getBalance\<close> yields the balance in the
  smallest unit and \<open>formatEther\<close> is the library's pure conversion to a decimal string.
\<close>

record 'w env =
  has_ethereum :: bool
  eth_requestAccounts :: "'w \<Rightarrow> (js_error + string list) \<times> 'w"
  eth_chainId :: "'w \<Rightarrow> (js_error + string) \<times> 'w"
  eth_accounts :: "'w \<Rightarrow> (js_error + string list) \<times> 'w"
  wallet_switchEthereumChain :: "string \<Rightarrow> 'w \<Rightarrow> (js_error + unit) \<times> 'w"
  wallet_addEthereumChain :: "network \<Rightarrow> 'w \<Rightarrow> (js_error + unit) \<times> 'w"
  provider_getBalance :: "string \<Rightarrow> 'w \<Rightarrow> (js_error + nat) \<times> 'w"
  formatEther :: "nat \<Rightarrow> string"
  lookupAddress :: "string \<Rightarrow> 'w \<Rightarrow> (js_error + string option) \<times> 'w"
  getResolver :: "string \<Rightarrow> 'w \<Rightarrow> (js_error + resolver option) \<times> 'w"
  getAvatar :: "resolver \<Rightarrow> 'w \<Rightarrow> (js_error + string option) \<times> 'w"

text \<open>
  The event handlers the controller registers. A handler is a closure over the values
  its render read from the store: \<open>address\<close> for the account handler, \<open>address\<close>
  and \<open>chainId\<close> for the chain handler.
\<close>

datatype listener =
    AccountsChanged "string option"
  | ChainChanged "string option" "string option"

text \<open>
  Everything an operation can read or change: the store's \<open>WalletState\<close>, the world
  behind the provider, the provider requests issued so far (oldest first), the number
  of \<open>alert\<close> notices shown and the registered listeners. Console logging has no
  effect on any of these and is left out.
\<close>

record 'w conf =
  wallet :: WalletState
  world :: 'w
  trace :: "request list"
  alerts :: nat
  listeners :: "listener list"

section \<open>Asynchronous operations\<close>

text \<open>
  An \<open>async\<close> function runs from a configuration to a settled promise: rejected with
  an error (\<open>Inl\<close>) or fulfilled with a value (\<open>Inr\<close>), together with the configuration
  it leaves. Operations do not overlap, so \<open>await\<close> is sequencing, and a rejection
  skips the rest of the block, keeping what was written before it.
\<close>

type_synonym ('w, 'a) async = "'w conf \<Rightarrow> (js_error + 'a) \<times> 'w conf"

definition return :: "'a \<Rightarrow> ('w, 'a) async" where
  "return v c = (Inr v, c)"

definition await :: "('w, 'a) async \<Rightarrow> ('a \<Rightarrow> ('w, 'b) async) \<Rightarrow> ('w, 'b) async" where
  "await m f c = (case m c of (Inl e, c') \<Rightarrow> (Inl e, c') | (Inr v, c') \<Rightarrow> f v c')"

definition try_catch :: "('w, 'a) async \<Rightarrow> (js_error \<Rightarrow> ('w, 'a) async) \<Rightarrow> ('w, 'a) async" where
  "try_catch m h c = (case m c of (Inl e, c') \<Rightarrow> h e c' | (Inr v, c') \<Rightarrow> (Inr v, c'))"

text \<open>
  zustand's \<open>set\<close> (with a function of the state) and \<open>get\<close>. Both are synchronous;
  \<open>sync\<close> runs a synchronous store operation inside an \<open>async\<close> function.
\<close>

definition set_state :: "(WalletState \<Rightarrow> WalletState) \<Rightarrow> 'w conf \<Rightarrow> 'w conf" where
  "set_state f c = c\<lparr>wallet := f (wallet c)\<rparr>"

definition sync :: "('w conf \<Rightarrow> 'w conf) \<Rightarrow> ('w, unit) async" where
  "sync f c = (Inr (), f c)"

definition get_state :: "('w, WalletState) async" where
  "get_state c = (Inr (wallet c), c)"

definition alert :: "('w, unit) async" where
  "alert c = (Inr (), c\<lparr>alerts := Suc (alerts c)\<rparr>)"

text \<open>
  \<open>window.ethereum.request(r)\<close>, answered by \<open>f\<close>: with no provider the member access
  throws before anything is sent; otherwise the request is recorded and the provider's
  answer is the result.
\<close>

definition request :: "'w env \<Rightarrow> request \<Rightarrow> ('w \<Rightarrow> (js_error + 'a) \<times> 'w) \<Rightarrow> ('w, 'a) async" where
  "request env r f c =
     (if \<not> has_ethereum env then (Inl TypeError, c)
      else case f (world c) of
             (res, w') \<Rightarrow> (res, c\<lparr>world := w', trace := trace c @ [r]\<rparr>))"

text \<open>A call into the client library (through \<open>new ethers.BrowserProvider\<close>).\<close>

definition library_call :: "('w \<Rightarrow> (js_error + 'a) \<times> 'w) \<Rightarrow> ('w, 'a) async" where
  "library_call f c = (case f (world c) of (res, w') \<Rightarrow> (res, c\<lparr>world := w'\<rparr>))"

text \<open>JavaScript truthiness of a \<open>string | null | undefined\<close>: present and non-empty.\<close>

definition truthy :: "string option \<Rightarrow> bool" where
  "truthy x = (case x of None \<Rightarrow> False | Some s \<Rightarrow> s \<noteq> [])"

section \<open>The store's helpers\<close>

definition isMetaMaskInstalled :: "'w env \<Rightarrow> bool" where
  "isMetaMaskInstalled env = has_ethereum env"

text \<open>
  \<open>getCurrentNetwork\<close>: the first key, in the table's order, whose chain id is the
  given one.
\<close>

definition getCurrentNetwork :: "string option \<Rightarrow> network option" where
  "getCurrentNetwork cid =
     map_option NETWORKS
       (find (\<lambda>key. Some (network.chainId (NETWORKS key)) = cid) [ethereum, bsc, sepolia])"

text \<open>
  \<open>getBalance\<close>: inside the \<open>try\<close>, a present provider is asked and the formatted
  answer returned; a rejection is caught and logged; every path that did not return
  falls through to \<open>return "0"\<close>. The \<open>try\<close> block yields \<open>Some v\<close> for an early return
  and \<open>None\<close> for falling through.
\<close>

definition getBalance :: "'w env \<Rightarrow> string \<Rightarrow> ('w, string) async" where
  "getBalance env addr =
     await
       (try_catch
          (if has_ethereum env
           then await (library_call (provider_getBalance env addr))
                  (\<lambda>balance. return (Some (formatEther env balance)))
           else return None)
          (\<lambda>error. return None))
       (\<lambda>early. case early of Some v \<Rightarrow> return v | None \<Rightarrow> return ''0'')"

text \<open>
  The first block of \<open>getENSInfo\<close>: \<open>currentChainId\<close> starts as the argument; if that is
  falsy and a provider is present, the provider is asked, and a rejection is caught,
  leaving the argument.
\<close>

definition resolveChainId :: "'w env \<Rightarrow> string option \<Rightarrow> ('w, string option) async" where
  "resolveChainId env cid =
     (if \<not> truthy cid \<and> has_ethereum env
      then try_catch
             (await (request env Eth_chainId (eth_chainId env))
                (\<lambda>currentChainId. return (Some currentChainId)))
             (\<lambda>error. return cid)
      else return cid)"

text \<open>
  The avatar block of \<open>getENSInfo\<close>: \<open>ensAvatar\<close> starts as \<open>null\<close>; for a truthy name
  the resolver is fetched and, if there is one, asked for the avatar; a rejection of
  either call is caught and leaves \<open>null\<close>.
\<close>

definition resolveAvatar :: "'w env \<Rightarrow> string option \<Rightarrow> ('w, string option) async" where
  "resolveAvatar env nm =
     (case nm of
        None \<Rightarrow> return None
      | Some n \<Rightarrow>
          if n = [] then return None
          else try_catch
                 (await (library_call (getResolver env n))
                    (\<lambda>resolver. case resolver of
                                   None \<Rightarrow> return None
                                 | Some r \<Rightarrow> library_call (getAvatar env r)))
                 (\<lambda>error. return None))"

text \<open>
  \<open>getENSInfo\<close>; the result \<open>{ensName, ensAvatar}\<close> is the pair \<open>(ensName, ensAvatar)\<close>.
  Only on chain \<open>0x1\<close> with a provider present is the name looked up; every other path,
  and every rejection not caught further in, ends in \<open>{null, null}\<close>.
\<close>

definition getENSInfo ::
  "'w env \<Rightarrow> string \<Rightarrow> string option \<Rightarrow> ('w, string option \<times> string option) async" where
  "getENSInfo env addr cid =
     await
       (try_catch
          (await (resolveChainId env cid)
             (\<lambda>currentChainId.
                if currentChainId = Some ''0x1'' \<and> has_ethereum env
                then await (library_call (lookupAddress env addr))
                       (\<lambda>ensName.
                          await (resolveAvatar env ensName)
                            (\<lambda>ensAvatar. return (Some (ensName, ensAvatar))))
                else return None))
          (\<lambda>error. return None))
       (\<lambda>early. case early of Some v \<Rightarrow> return v | None \<Rightarrow> return (None, None))"

section \<open>The store's operations\<close>

text \<open>\<open>setWallet\<close>: the spread \<open>{...state, ...wallet}\<close>, a present field winning.\<close>

definition merge :: "WalletState \<Rightarrow> PartialWalletState \<Rightarrow> WalletState" where
  "merge s p =
     \<lparr>address = (case address_opt p of None \<Rightarrow> address s | Some v \<Rightarrow> v),
      chainId = (case chainId_opt p of None \<Rightarrow> chainId s | Some v \<Rightarrow> v),
      isConnected = (case isConnected_opt p of None \<Rightarrow> isConnected s | Some v \<Rightarrow> v),
      balance = (case balance_opt p of None \<Rightarrow> balance s | Some v \<Rightarrow> v),
      ensName = (case ensName_opt p of None \<Rightarrow> ensName s | Some v \<Rightarrow> v),
      ensAvatar = (case ensAvatar_opt p of None \<Rightarrow> ensAvatar s | Some v \<Rightarrow> v),
      userDisconnected =
        (case userDisconnected_opt p of None \<Rightarrow> userDisconnected s | Some v \<Rightarrow> v)\<rparr>"

definition setWallet :: "PartialWalletState \<Rightarrow> 'w conf \<Rightarrow> 'w conf" where
  "setWallet p = set_state (\<lambda>state. merge state p)"

definition resetWallet :: "'w conf \<Rightarrow> 'w conf" where
  "resetWallet =
     set_state (\<lambda>state. state\<lparr>address := None, chainId := None, isConnected := False,
       balance := ''0'', ensName := None, ensAvatar := None, userDisconnected := False\<rparr>)"

definition disconnectWallet :: "'w conf \<Rightarrow> 'w conf" where
  "disconnectWallet =
     set_state (\<lambda>state. state\<lparr>address := None, chainId := None, isConnected := False,
       balance := ''0'', ensName := None, ensAvatar := None, userDisconnected := True\<rparr>)"

text \<open>
  \<open>connectWallet\<close>: without a provider, an alert and nothing else. Otherwise, inside one
  \<open>try\<close>: request the accounts; for a non-empty answer take the first, ask for the chain
  id, the balance and the name, and write all seven fields at once. The \<open>catch\<close> logs.
\<close>

definition connectWallet :: "'w env \<Rightarrow> ('w, unit) async" where
  "connectWallet env =
     (if \<not> isMetaMaskInstalled env then alert
      else try_catch
             (await (request env Eth_requestAccounts (eth_requestAccounts env))
                (\<lambda>accounts. case accounts of
                   [] \<Rightarrow> return ()
                 | addr # _ \<Rightarrow>
                     await (request env Eth_chainId (eth_chainId env))
                       (\<lambda>cid. await (getBalance env addr)
                          (\<lambda>bal. await (getENSInfo env addr (Some cid))
                             (\<lambda>(name', avatar). sync (set_state (\<lambda>state. state
                                \<lparr>address := Some addr, chainId := Some cid,
                                 isConnected := True, balance := bal,
                                 ensName := name', ensAvatar := avatar,
                                 userDisconnected := False\<rparr>)))))))
             (\<lambda>error. return ()))"

text \<open>
  \<open>updateWalletState\<close>: the chain id is \<open>newChainId || await request(eth_chainId)\<close>,
  so a missing or empty argument asks the provider; then as \<open>connectWallet\<close>.
\<close>

definition updateWalletState :: "'w env \<Rightarrow> string \<Rightarrow> string option \<Rightarrow> ('w, unit) async" where
  "updateWalletState env addr newChainId =
     try_catch
       (await (case newChainId of
                 None \<Rightarrow> request env Eth_chainId (eth_chainId env)
               | Some n \<Rightarrow> if n = [] then request env Eth_chainId (eth_chainId env)
                           else return n)
          (\<lambda>cid. await (getBalance env addr)
             (\<lambda>bal. await (getENSInfo env addr (Some cid))
                (\<lambda>(name', avatar). sync (set_state (\<lambda>state. state
                   \<lparr>address := Some addr, chainId := Some cid,
                    isConnected := True, balance := bal,
                    ensName := name', ensAvatar := avatar,
                    userDisconnected := False\<rparr>))))))
       (\<lambda>error. return ())"

text \<open>
  The two lines after a successful switch or add:
  \<^verbatim>\<open>const { address } = get(); if (address) { await get().updateWalletState(address, network.chainId); }\<close>
\<close>

definition updateAfterSwitch :: "'w env \<Rightarrow> network \<Rightarrow> ('w, unit) async" where
  "updateAfterSwitch env net =
     await get_state
       (\<lambda>state. case address state of
          None \<Rightarrow> return ()
        | Some a \<Rightarrow> if a = [] then return ()
                    else updateWalletState env a (Some (network.chainId net)))"

text \<open>
  \<open>switchNetwork\<close>: nothing without a provider. The switch request and the update after
  it share one \<open>try\<close>; its \<open>catch\<close> looks at \<open>error.code\<close>: on 4902 the whole network
  record is sent in an add request, followed by the same update, in a \<open>try\<close> of its own;
  any other error is logged.
\<close>

definition switchNetwork :: "'w env \<Rightarrow> networkKey \<Rightarrow> ('w, unit) async" where
  "switchNetwork env networkKey =
     (if \<not> has_ethereum env then return ()
      else let net = NETWORKS networkKey in
        try_catch
          (await (request env (Wallet_switchEthereumChain (network.chainId net))
                    (wallet_switchEthereumChain env (network.chainId net)))
             (\<lambda>_. updateAfterSwitch env net))
          (\<lambda>error.
             if error_code error = Some 4902
             then try_catch
                    (await (request env (Wallet_addEthereumChain net)
                              (wallet_addEthereumChain env net))
                       (\<lambda>_. updateAfterSwitch env net))
                    (\<lambda>addError. return ())
             else return ()))"

section \<open>The connection controller\<close>

text \<open>
  The handlers are closures: \<open>address\<close> and \<open>chainId\<close> are the values the component's
  render read from the store, passed here as \<open>addr\<close> and \<open>cid\<close>.
\<close>

definition handleAccountsChanged :: "'w env \<Rightarrow> string option \<Rightarrow> string list \<Rightarrow> ('w, unit) async" where
  "handleAccountsChanged env addr accounts =
     (case accounts of
        [] \<Rightarrow> sync disconnectWallet
      | a # _ \<Rightarrow> if Some a \<noteq> addr then updateWalletState env a None else return ())"

definition handleChainChanged ::
  "'w env \<Rightarrow> string option \<Rightarrow> string option \<Rightarrow> string \<Rightarrow> ('w, unit) async" where
  "handleChainChanged env addr cid newChainId =
     (case addr of
        None \<Rightarrow> return ()
      | Some a \<Rightarrow> if a \<noteq> [] \<and> Some newChainId \<noteq> cid
                  then updateWalletState env a (Some newChainId)
                  else return ())"

text \<open>
  \<open>checkInitialConnection\<close>, a closure over \<open>userDisconnected\<close> and \<open>isConnected\<close>:
  two early returns, then the silent account query inside a \<open>try\<close>.
\<close>

definition checkInitialConnection :: "'w env \<Rightarrow> bool \<Rightarrow> bool \<Rightarrow> ('w, unit) async" where
  "checkInitialConnection env userDisc isConn =
     (if userDisc then return ()
      else if isConn then return ()
      else try_catch
             (await (request env Eth_accounts (eth_accounts env))
                (\<lambda>accounts. case accounts of
                   [] \<Rightarrow> return ()
                 | a # _ \<Rightarrow> updateWalletState env a None))
             (\<lambda>error. return ()))"

text \<open>
  The mount effect: nothing without a provider; otherwise the two handlers of this
  render are registered and the initial check runs, all three closing over the store's
  state as the render read it.
\<close>

definition mount :: "'w env \<Rightarrow> ('w, unit) async" where
  "mount env c =
     (if \<not> isMetaMaskInstalled env then (Inr (), c)
      else let state = wallet c;
               c' = c\<lparr>listeners := listeners c
                      @ [AccountsChanged (address state),
                         ChainChanged (address state) (chainId state)]\<rparr>
           in checkInitialConnection env (userDisconnected state) (isConnected state) c')"

section \<open>Sample environments and configurations\<close>

text \<open>
  Concrete providers and store configurations on which the theorems below are
  instantiated. \<open>statelessEnv\<close> is a provider without hidden state that answers every
  call of one kind with a fixed result.
\<close>

definition statelessEnv ::
  "(js_error + string list) \<Rightarrow> (js_error + string) \<Rightarrow> (js_error + unit) \<Rightarrow> (js_error + unit)
   \<Rightarrow> (js_error + nat) \<Rightarrow> (js_error + string option) \<Rightarrow> (js_error + resolver option)
   \<Rightarrow> (js_error + string option) \<Rightarrow> unit env" where
  "statelessEnv accounts chain switched added wei nm res avatar =
     \<lparr>has_ethereum = True,
      eth_requestAccounts = (\<lambda>w. (accounts, w)),
      eth_chainId = (\<lambda>w. (chain, w)),
      eth_accounts = (\<lambda>w. (accounts, w)),
      wallet_switchEthereumChain = (\<lambda>_ w. (switched, w)),
      wallet_addEthereumChain = (\<lambda>_ w. (added, w)),
      provider_getBalance = (\<lambda>_ w. (wei, w)),
      formatEther = (\<lambda>_. ''1.5''),
      lookupAddress = (\<lambda>_ w. (nm, w)),
      getResolver = (\<lambda>_ w. (res, w)),
      getAvatar = (\<lambda>_ w. (avatar, w))\<rparr>"

definition freshConf :: "unit conf" where
  "freshConf = \<lparr>wallet = initialState, world = (), trace = [], alerts = 0, listeners = []\<rparr>"

definition connectedConf :: "unit conf" where
  "connectedConf =
     \<lparr>wallet = \<lparr>address = Some ''0xabc'', chainId = Some ''0x1'', isConnected = True,
                 balance = ''1.5'', ensName = None, ensAvatar = None,
                 userDisconnected = False\<rparr>,
      world = (), trace = [], alerts = 0, listeners = []\<rparr>"

definition optedOutConf :: "unit conf" where
  "optedOutConf = disconnectWallet connectedConf"

definition mainnetEnv :: "unit env" where
  "mainnetEnv =
     statelessEnv (Inr [''0xabc'', ''0xdef'']) (Inr ''0x1'') (Inr ()) (Inr ())
       (Inr 1500) (Inr (Some ''alice.eth''))
       (Inr (Some (Resolver ''alice.eth''))) (Inr (Some ''https://example.org/a.png''))"

definition userRejectsEnv :: "unit env" where
  "userRejectsEnv =
     statelessEnv (Inl (ProviderError (Some 4001))) (Inr ''0x1'') (Inr ()) (Inr ())
       (Inr 0) (Inr None) (Inr None) (Inr None)"

definition balanceFailsEnv :: "unit env" where
  "balanceFailsEnv =
     statelessEnv (Inr [''0xabc'']) (Inr ''0x38'') (Inr ()) (Inr ())
       (Inl (ProviderError None)) (Inr None) (Inr None) (Inr None)"

definition unknownChainEnv :: "unit env" where
  "unknownChainEnv =
     statelessEnv (Inr [''0xabc'']) (Inr ''0x1'') (Inl (ProviderError (Some 4902))) (Inr ())
       (Inr 1500) (Inr None) (Inr None) (Inr None)"

definition avatarFailsEnv :: "unit env" where
  "avatarFailsEnv =
     statelessEnv (Inr [''0xabc'']) (Inr ''0x1'') (Inr ()) (Inr ())
       (Inr 0) (Inr (Some ''alice.eth'')) (Inl (ProviderError None)) (Inr None)"

text \<open>
  \<open>parseFloat\<close> and the string form of Numbers on the few inputs used below, where
  they agree with JavaScript: \<open>1e21\<close> and \<open>1.5\<close> are doubles, \<open>0.00005\<close> parses to the
  double \<open>7378697629483821 / 2^67\<close>, and \<open>String(1e21)\<close> is \<open>"1e+21"\<close>.
\<close>

definition sampleParseFloat :: "string \<Rightarrow> js_number" where
  "sampleParseFloat s =
     (if s = ''1e21'' then Finite (10 ^ 21)
      else if s = ''1.5'' then Finite (3 / 2)
      else if s = ''0.00005'' then Finite (7378697629483821 / 2 ^ 67)
      else NaN)"

definition sampleNumberToString :: "rat \<Rightarrow> string" where
  "sampleNumberToString x = (if x = 10 ^ 21 then ''1e+21'' else ''unused'')"

section \<open>Properties of the formatting helpers\<close>

lemma js_slice_prefix: "js_slice s 0 (Some 6) = take 6 s"
proof -
  have "nat (min 6 (int (length s))) = min 6 (length s)" by simp
  then show ?thesis by (simp add: js_slice_def Let_def min_def)
qed

lemma js_slice_suffix: "js_slice s (- 4) None = drop (length s - 4) s"
proof (cases "4 \<le> length s")
  case True
  then have "nat (int (length s) - 4) = length s - 4" by simp
  with True show ?thesis by (simp add: js_slice_def Let_def max_def)
next
  case False
  then show ?thesis by (simp add: js_slice_def Let_def max_def)
qed

lemma formatAddress_eq: "formatAddress s = take 6 s @ ''...'' @ drop (length s - 4) s"
  by (simp add: formatAddress_def js_slice_prefix js_slice_suffix)

text \<open>
  Claim C8. For every input string of length at least 10, \<open>formatAddress\<close> returns a
  string of exactly 13 characters: the first 6 characters of the input, then the three
  characters \<open>...\<close>, then the last 4 characters of the input.
\<close>

theorem formatAddress_long:
  assumes "10 \<le> length s"
  shows "formatAddress s = take 6 s @ ''...'' @ drop (length s - 4) s
         \<and> length (formatAddress s) = 13
         \<and> length (take 6 s) = 6
         \<and> length (drop (length s - 4) s) = 4"
  using assms by (simp add: formatAddress_eq)

theorem formatAddress_long_witness:
  "10 \<le> length ''0x1234567890abcdef''
   \<and> formatAddress ''0x1234567890abcdef'' = ''0x1234...cdef''
   \<and> length (formatAddress ''0x1234567890abcdef'') = 13"
  using formatAddress_long [of "''0x1234567890abcdef''"] by simp

text \<open>
  Claim C10. \<open>formatAddress\<close> is total on all strings: for every string \<open>s\<close> it
  returns the first \<open>min 6 |s|\<close> characters of \<open>s\<close>, then \<open>...\<close>, then the last
  \<open>min 4 |s|\<close> characters of \<open>s\<close>. For a non-empty input shorter than 10 characters
  the two slices overlap: the character at the first index of the suffix is also inside
  the prefix and so occurs twice in the output, which is longer than the input plus the
  dots. The empty string maps to \<open>...\<close>.
\<close>

theorem formatAddress_total:
  "formatAddress s =
     take (min 6 (length s)) s @ ''...'' @ drop (length s - min 4 (length s)) s
   \<and> length (formatAddress s) = min 6 (length s) + 3 + min 4 (length s)
   \<and> (0 < length s \<and> length s < 10 \<longrightarrow>
        length s - min 4 (length s) < min 6 (length s)
        \<and> formatAddress s ! (length s - min 4 (length s)) = s ! (length s - min 4 (length s))
        \<and> formatAddress s ! (min 6 (length s) + 3) = s ! (length s - min 4 (length s))
        \<and> length s + 3 < length (formatAddress s))
   \<and> formatAddress '''' = ''...''"
proof -
  let ?n = "length s"
  have eq: "formatAddress s = take 6 s @ ''...'' @ drop (?n - 4) s"
    by (rule formatAddress_eq)
  have a: "take (min 6 ?n) s = take 6 s" by (simp add: min_def)
  have b: "?n - min 4 ?n = ?n - 4" by (simp add: min_def)
  have c1: "formatAddress s = take (min 6 ?n) s @ ''...'' @ drop (?n - min 4 ?n) s"
    by (simp only: eq a b)
  have c2: "length (formatAddress s) = min 6 ?n + 3 + min 4 ?n"
    by (simp add: eq min_def)
  have c3: "formatAddress s ! (?n - min 4 ?n) = s ! (?n - min 4 ?n)
            \<and> formatAddress s ! (min 6 ?n + 3) = s ! (?n - min 4 ?n)"
    if h: "0 < ?n" "?n < 10"
  proof -
    from h have lt: "?n - 4 < min 6 ?n" by arith
    have "(take 6 s @ ''...'' @ drop (?n - 4) s) ! (?n - 4) = take 6 s ! (?n - 4)"
      using lt by (simp add: nth_append)
    also have "\<dots> = s ! (?n - 4)" using lt by simp
    finally have p1: "formatAddress s ! (?n - 4) = s ! (?n - 4)" by (simp only: eq)
    define pre where "pre = take 6 s @ ''...''"
    define suf where "suf = drop (?n - 4) s"
    have len: "length pre = min 6 ?n + 3" by (simp add: pre_def min_def)
    have "(pre @ suf) ! (length pre) = suf ! 0"
      using nth_append_length_plus [of pre suf 0] by simp
    moreover have "suf ! 0 = s ! (?n - 4)" using h by (simp add: suf_def)
    moreover have "formatAddress s = pre @ suf" by (simp add: eq pre_def suf_def)
    ultimately have p2: "formatAddress s ! (min 6 ?n + 3) = s ! (?n - 4)"
      by (simp only: len)
    from p1 p2 show ?thesis by (simp only: b)
  qed
  have c4: "formatAddress '''' = ''...''" by (simp add: formatAddress_eq)
  show ?thesis using c1 c2 c3 c4 by (auto simp add: min_def)
qed

theorem formatAddress_total_witness:
  "0 < length ''0xabc'' \<and> length ''0xabc'' < 10
   \<and> formatAddress ''0xabc'' = ''0xabc...xabc''
   \<and> formatAddress ''0xabc'' ! 1 = CHR ''x'' \<and> formatAddress ''0xabc'' ! 8 = CHR ''x''"
  using formatAddress_total [of "''0xabc''"] by simp

subsection \<open>Formatting a balance\<close>

lemma decimal_small: "n < 10 \<Longrightarrow> decimal n = [digit_char n]"
  by (simp add: decimal.simps)

lemma decimal_big: "10 \<le> n \<Longrightarrow> decimal n = decimal (n div 10) @ [digit_char (n mod 10)]"
  by (subst decimal.simps) simp

lemma floor_numeral_div: "\<lfloor>numeral a / numeral b :: rat\<rfloor> = numeral a div numeral b"
  using floor_divide_of_int_eq [of "numeral a" "numeral b", where ?'a = rat] by simp

lemma digit_char_0: "digit_char 0 = CHR ''0''"
  by (simp add: digit_char_def)

lemma decimal_nonempty: "decimal n \<noteq> []"
  by (subst decimal.simps) simp

lemma replicate_small:
  "replicate 4 c = [c, c, c, c]" "replicate 3 c = [c, c, c]" "replicate 2 c = [c, c]"
  by (simp_all add: eval_nat_numeral)

text \<open>Padding to five digits and the last four digits.\<close>

lemma decimal_pad4:
  "(if length (decimal n) \<le> 4
    then replicate (4 + 1 - length (decimal n)) CHR ''0'' @ decimal n
    else decimal n)
   = decimal (n div 10000)
     @ [digit_char (n div 1000 mod 10), digit_char (n div 100 mod 10),
        digit_char (n div 10 mod 10), digit_char (n mod 10)]"
proof -
  consider "n < 10" | "10 \<le> n" "n < 100" | "100 \<le> n" "n < 1000"
    | "1000 \<le> n" "n < 10000" | "10000 \<le> n"
    by linarith
  then show ?thesis
  proof cases
    case 1
    then show ?thesis by (simp add: decimal_small digit_char_0 replicate_small)
  next
    case 2
    then have a: "n div 10 < 10" by simp
    from 2 a show ?thesis
      by (simp add: decimal_big [of n] decimal_small [of "n div 10"] decimal_small [of 0]
            digit_char_0 replicate_small)
  next
    case 3
    then have a: "10 \<le> n div 10" "n div 10 div 10 < 10" "n div 10 div 10 = n div 100" by simp_all
    from 3 a show ?thesis
      by (simp add: decimal_big [of n] decimal_big [of "n div 10"]
            decimal_small [of "n div 100"] decimal_small [of 0] digit_char_0 replicate_small)
  next
    case 4
    then have a: "10 \<le> n div 10" "10 \<le> n div 100" "n div 1000 < 10"
      "n div 10 div 10 = n div 100" "n div 100 div 10 = n div 1000" by simp_all
    from 4 a show ?thesis
      by (simp add: decimal_big [of n] decimal_big [of "n div 10"] decimal_big [of "n div 100"]
            decimal_small [of "n div 1000"] decimal_small [of 0] digit_char_0 replicate_small)
  next
    case 5
    then have a: "10 \<le> n div 10" "10 \<le> n div 100" "10 \<le> n div 1000"
      "n div 10 div 10 = n div 100" "n div 100 div 10 = n div 1000"
      "n div 1000 div 10 = n div 10000" by simp_all
    have d: "decimal n = decimal (n div 10000)
     @ [digit_char (n div 1000 mod 10), digit_char (n div 100 mod 10),
        digit_char (n div 10 mod 10), digit_char (n mod 10)]"
      using 5 a
      by (simp add: decimal_big [of n] decimal_big [of "n div 10"] decimal_big [of "n div 100"]
            decimal_big [of "n div 1000"])
    have "length (decimal n) > 4"
      using decimal_nonempty [of "n div 10000"] by (subst d) (simp add: Suc_le_eq)
    with d show ?thesis by simp
  qed
qed

lemma toFixed4_finite:
  assumes "0 \<le> x" "x < 10 ^ 21"
  shows "toFixed numberToString (Finite x) 4 =
           decimal (nat \<lfloor>x * 10 ^ 4 + 1 / 2\<rfloor> div 10000) @ ''.''
           @ [digit_char (nat \<lfloor>x * 10 ^ 4 + 1 / 2\<rfloor> div 1000 mod 10),
              digit_char (nat \<lfloor>x * 10 ^ 4 + 1 / 2\<rfloor> div 100 mod 10),
              digit_char (nat \<lfloor>x * 10 ^ 4 + 1 / 2\<rfloor> div 10 mod 10),
              digit_char (nat \<lfloor>x * 10 ^ 4 + 1 / 2\<rfloor> mod 10)]"
proof -
  define n where "n = nat \<lfloor>x * 10 ^ 4 + 1 / 2\<rfloor>"
  define padded where "padded = (if length (decimal n) \<le> 4
    then replicate (4 + 1 - length (decimal n)) CHR ''0'' @ decimal n
    else decimal n)"
  define front where "front = decimal (n div 10000)"
  define fracpart where "fracpart = [digit_char (n div 1000 mod 10), digit_char (n div 100 mod 10),
        digit_char (n div 10 mod 10), digit_char (n mod 10)]"
  have p: "padded = front @ fracpart"
    unfolding padded_def front_def fracpart_def by (rule decimal_pad4)
  have lb: "length fracpart = 4" by (simp add: fracpart_def)
  have "toFixed numberToString (Finite x) 4 =
          (let p = (if length (decimal n) \<le> 4
                    then replicate (4 + 1 - length (decimal n)) CHR ''0'' @ decimal n
                    else decimal n)
           in take (length p - 4) p @ ''.'' @ drop (length p - 4) p)"
    using assms by (simp add: toFixed_def Let_def n_def)
  then have "toFixed numberToString (Finite x) 4 =
          take (length padded - 4) padded @ ''.'' @ drop (length padded - 4) padded"
    unfolding padded_def Let_def .
  also have "\<dots> = front @ ''.'' @ fracpart"
    by (simp add: p lb)
  finally show ?thesis
    by (simp add: front_def fracpart_def n_def)
qed

lemma literal_0_0001_pos: "0 < literal_0_0001"
  by (simp add: literal_0_0001_def)

text \<open>
  Claim C9 says that for every numeric string \<open>b\<close>, \<open>formatBalance(b)\<close> is \<open>"0"\<close>
  exactly when the parsed value is below 0.0001, and is otherwise the parsed value with
  exactly 4 decimal places. The string \<open>1e21\<close> is numeric and parses to the double
  \<open>10^21\<close>, which is not below 0.0001; from that size on \<open>toFixed\<close> hands over to the
  Number's ordinary string form, so the result is \<open>"1e+21"\<close>, with no decimal point at
  all.
\<close>

theorem formatBalance_exponent_from_1e21:
  "sampleParseFloat ''1e21'' = Finite (10 ^ 21)
   \<and> \<not> js_less (sampleParseFloat ''1e21'') (Finite literal_0_0001)
   \<and> formatBalance sampleParseFloat sampleNumberToString ''1e21'' = ''1e+21''
   \<and> CHR ''.'' \<notin> set (formatBalance sampleParseFloat sampleNumberToString ''1e21'')"
  by (simp add: formatBalance_def sampleParseFloat_def sampleNumberToString_def toFixed_def
        literal_0_0001_def)

text \<open>
  Claim C9, as the code has it. For every string \<open>b\<close> that \<open>parseFloat\<close> reads as a
  finite number below \<open>10^21\<close>: \<open>formatBalance(b)\<close> is \<open>"0"\<close> if and only if the parsed
  value is less than the double 0.0001; otherwise it is the digits of the integer part,
  a point and exactly four decimals, of the multiple of 0.0001 nearest to the parsed
  value (the upper one of two).
\<close>

theorem formatBalance_below_1e21:
  assumes "parseFloat b = Finite x" and "x < 10 ^ 21"
  shows "(formatBalance parseFloat numberToString b = ''0'' \<longleftrightarrow> x < literal_0_0001)
       \<and> (\<not> x < literal_0_0001 \<longrightarrow>
            formatBalance parseFloat numberToString b =
              decimal (nat \<lfloor>x * 10 ^ 4 + 1 / 2\<rfloor> div 10000) @ ''.''
              @ [digit_char (nat \<lfloor>x * 10 ^ 4 + 1 / 2\<rfloor> div 1000 mod 10),
                 digit_char (nat \<lfloor>x * 10 ^ 4 + 1 / 2\<rfloor> div 100 mod 10),
                 digit_char (nat \<lfloor>x * 10 ^ 4 + 1 / 2\<rfloor> div 10 mod 10),
                 digit_char (nat \<lfloor>x * 10 ^ 4 + 1 / 2\<rfloor> mod 10)]
            \<and> \<bar>of_nat (nat \<lfloor>x * 10 ^ 4 + 1 / 2\<rfloor>) / 10 ^ 4 - x\<bar> \<le> 1 / (2 * 10 ^ 4)
            \<and> of_nat (nat \<lfloor>x * 10 ^ 4 + 1 / 2\<rfloor>) / 10 ^ 4 - x \<noteq> - (1 / (2 * 10 ^ 4)))"
proof (cases "x < literal_0_0001")
  case True
  with assms show ?thesis by (simp add: formatBalance_def)
next
  case False
  with literal_0_0001_pos have pos: "0 \<le> x" by simp
  define n where "n = nat \<lfloor>x * 10 ^ 4 + 1 / 2\<rfloor>"
  have fb: "formatBalance parseFloat numberToString b = toFixed numberToString (Finite x) 4"
    using assms False by (simp add: formatBalance_def)
  note tf = toFixed4_finite [OF pos assms(2), of numberToString, folded n_def]
  have ne: "formatBalance parseFloat numberToString b \<noteq> ''0''"
  proof
    assume "formatBalance parseFloat numberToString b = ''0''"
    then have "length (formatBalance parseFloat numberToString b) = 1" by simp
    then show False by (simp add: fb tf)
  qed
  have fl: "0 \<le> \<lfloor>x * 10 ^ 4 + 1 / 2\<rfloor>" using pos by simp
  then have n: "(of_nat n :: rat) = of_int \<lfloor>x * 10 ^ 4 + 1 / 2\<rfloor>"
    by (simp add: n_def)
  have lo: "of_nat n \<le> x * 10 ^ 4 + 1 / 2"
    unfolding n by (rule of_int_floor_le)
  have hi: "x * 10 ^ 4 + 1 / 2 < of_nat n + 1"
    using floor_correct [of "x * 10 ^ 4 + 1 / 2"] unfolding n by simp
  have e: "of_nat n / 10 ^ 4 - x = (of_nat n - x * 10 ^ 4) / 10 ^ 4"
    by (simp add: field_simps)
  from lo hi have "\<bar>of_nat n - x * 10 ^ 4\<bar> \<le> 1 / 2" and "of_nat n - x * 10 ^ 4 \<noteq> - (1 / 2)"
    by linarith+
  then have "\<bar>of_nat n / 10 ^ 4 - x\<bar> \<le> 1 / (2 * 10 ^ 4)"
    and "of_nat n / 10 ^ 4 - x \<noteq> - (1 / (2 * 10 ^ 4))"
    unfolding e by (simp_all add: field_simps)
  with False ne fb tf show ?thesis by (simp add: n_def)
qed

theorem formatBalance_below_1e21_witness:
  "sampleParseFloat ''1.5'' = Finite (3 / 2) \<and> (3 / 2 :: rat) < 10 ^ 21
   \<and> \<not> (3 / 2 < literal_0_0001)
   \<and> formatBalance sampleParseFloat sampleNumberToString ''1.5'' = ''1.5000''
   \<and> sampleParseFloat ''0.00005'' = Finite (7378697629483821 / 2 ^ 67)
   \<and> formatBalance sampleParseFloat sampleNumberToString ''0.00005'' = ''0''"
proof -
  have h1: "sampleParseFloat ''1.5'' = Finite (3 / 2)"
    by (simp add: sampleParseFloat_def)
  have h2: "(3 / 2 :: rat) < 10 ^ 21" by simp
  have h3: "\<not> ((3 / 2 :: rat) < literal_0_0001)" by (simp add: literal_0_0001_def)
  have g1: "sampleParseFloat ''0.00005'' = Finite (7378697629483821 / 2 ^ 67)"
    by (simp add: sampleParseFloat_def)
  have g2: "(7378697629483821 / 2 ^ 67 :: rat) < 10 ^ 21" by simp
  have g3: "(7378697629483821 / 2 ^ 67 :: rat) < literal_0_0001" by (simp add: literal_0_0001_def)
  from formatBalance_below_1e21 [of sampleParseFloat "''1.5''" "3 / 2" sampleNumberToString, OF h1 h2] h3
  have a: "formatBalance sampleParseFloat sampleNumberToString ''1.5'' = ''1.5000''"
    by (simp add: floor_numeral_div decimal_small digit_char_def)
  from formatBalance_below_1e21 [of sampleParseFloat "''0.00005''" "7378697629483821 / 2 ^ 67"
         sampleNumberToString, OF g1 g2] g3
  have b: "formatBalance sampleParseFloat sampleNumberToString ''0.00005'' = ''0''"
    by blast
  from h1 h2 h3 a g1 b show ?thesis by simp
qed

section \<open>The asynchronous helpers never reject\<close>

lemmas async_defs = return_def await_def try_catch_def sync_def get_state_def set_state_def
  request_def library_call_def alert_def

lemma getBalance_total:
  "\<exists>b w'. getBalance env a c = (Inr b, c\<lparr>world := w'\<rparr>)"
proof (cases "has_ethereum env")
  case False
  then have "getBalance env a c = (Inr ''0'', c\<lparr>world := world c\<rparr>)"
    by (simp add: getBalance_def async_defs)
  then show ?thesis by blast
next
  case True
  obtain r w' where r: "provider_getBalance env a (world c) = (r, w')"
    by (cases "provider_getBalance env a (world c)")
  show ?thesis
  proof (cases r)
    case (Inl e)
    with True r have "getBalance env a c = (Inr ''0'', c\<lparr>world := w'\<rparr>)"
      by (simp add: getBalance_def async_defs)
    then show ?thesis by blast
  next
    case (Inr b)
    with True r have "getBalance env a c = (Inr (formatEther env b), c\<lparr>world := w'\<rparr>)"
      by (simp add: getBalance_def async_defs)
    then show ?thesis by blast
  qed
qed

lemma resolveChainId_given: "truthy cid \<Longrightarrow> resolveChainId env cid c = (Inr cid, c)"
  by (simp add: resolveChainId_def async_defs)

lemma resolveChainId_absent: "\<not> has_ethereum env \<Longrightarrow> resolveChainId env cid c = (Inr cid, c)"
  by (simp add: resolveChainId_def async_defs)

lemma resolveChainId_query:
  assumes "\<not> truthy cid" "has_ethereum env" "eth_chainId env (world c) = (r, w')"
  shows "resolveChainId env cid c =
           (Inr (case r of Inl e \<Rightarrow> cid | Inr x \<Rightarrow> Some x),
            c\<lparr>world := w', trace := trace c @ [Eth_chainId]\<rparr>)"
  using assms by (cases r) (simp_all add: resolveChainId_def async_defs)

lemma resolveChainId_total:
  "\<exists>rc w' t. resolveChainId env cid c = (Inr rc, c\<lparr>world := w', trace := trace c @ t\<rparr>)"
proof (cases "\<not> truthy cid \<and> has_ethereum env")
  case True
  obtain r w' where "eth_chainId env (world c) = (r, w')"
    by (cases "eth_chainId env (world c)")
  with True show ?thesis using resolveChainId_query [of cid env c r w'] by blast
next
  case False
  then have "resolveChainId env cid c = (Inr cid, c\<lparr>world := world c, trace := trace c @ []\<rparr>)"
    by (auto simp: resolveChainId_given resolveChainId_absent)
  then show ?thesis by blast
qed

lemma resolveAvatar_total:
  "\<exists>av w'. resolveAvatar env nm c = (Inr av, c\<lparr>world := w'\<rparr>)"
proof -
  have here: "\<exists>av w'. (Inr None, c) = (Inr (av :: string option), c\<lparr>world := w'\<rparr>)"
    by (rule exI [of _ None], rule exI [of _ "world c"]) simp
  show ?thesis
  proof (cases "truthy nm")
    case False
    then have "resolveAvatar env nm c = (Inr None, c)"
      by (auto simp: resolveAvatar_def truthy_def return_def split: option.splits)
    with here show ?thesis by simp
  next
    case True
    then obtain n where n: "nm = Some n" "n \<noteq> []"
      by (auto simp: truthy_def split: option.splits)
    obtain r w1 where r: "getResolver env n (world c) = (r, w1)"
      by (cases "getResolver env n (world c)")
    show ?thesis
    proof (cases r)
      case (Inl e)
      with n r have "resolveAvatar env nm c = (Inr None, c\<lparr>world := w1\<rparr>)"
        by (simp add: resolveAvatar_def async_defs)
      then show ?thesis by blast
    next
      case (Inr ro)
      show ?thesis
      proof (cases ro)
        case None
        with Inr n r have "resolveAvatar env nm c = (Inr None, c\<lparr>world := w1\<rparr>)"
          by (simp add: resolveAvatar_def async_defs)
        then show ?thesis by blast
      next
        case (Some rs)
        obtain v w2 where v: "getAvatar env rs w1 = (v, w2)"
          by (cases "getAvatar env rs w1")
        with Some Inr n r
        have "resolveAvatar env nm c = (Inr (case v of Inl e \<Rightarrow> None | Inr x \<Rightarrow> x), c\<lparr>world := w2\<rparr>)"
          by (cases v) (simp_all add: resolveAvatar_def async_defs)
        then show ?thesis by blast
      qed
    qed
  qed
qed

text \<open>\<open>getENSInfo\<close> with its blocks named.\<close>

lemma getENSInfo_unfold:
  "getENSInfo env a cid c =
     (case resolveChainId env cid c of
        (Inl e, c1) \<Rightarrow> (Inr (None, None), c1)
      | (Inr rc, c1) \<Rightarrow>
          if rc = Some ''0x1'' \<and> has_ethereum env
          then (case lookupAddress env a (world c1) of
                  (Inl e, w) \<Rightarrow> (Inr (None, None), c1\<lparr>world := w\<rparr>)
                | (Inr nm, w) \<Rightarrow>
                    (case resolveAvatar env nm (c1\<lparr>world := w\<rparr>) of
                       (Inl e, c3) \<Rightarrow> (Inr (None, None), c3)
                     | (Inr av, c3) \<Rightarrow> (Inr (nm, av), c3)))
          else (Inr (None, None), c1))"
  by (simp add: getENSInfo_def return_def await_def try_catch_def library_call_def
           split: prod.splits sum.splits)

lemma getENSInfo_total:
  "\<exists>r w' t. getENSInfo env a cid c = (Inr r, c\<lparr>world := w', trace := trace c @ t\<rparr>)"
proof -
  obtain rc w1 t where rc: "resolveChainId env cid c = (Inr rc, c\<lparr>world := w1, trace := trace c @ t\<rparr>)"
    using resolveChainId_total [of env cid c] by blast
  let ?c1 = "c\<lparr>world := w1, trace := trace c @ t\<rparr>"
  show ?thesis
  proof (cases "rc = Some ''0x1'' \<and> has_ethereum env")
    case False
    with rc have "getENSInfo env a cid c = (Inr (None, None), ?c1)"
      by (auto simp add: getENSInfo_unfold)
    then show ?thesis by blast
  next
    case True
    obtain l w2 where l: "lookupAddress env a w1 = (l, w2)"
      by (cases "lookupAddress env a w1")
    show ?thesis
    proof (cases l)
      case (Inl e)
      with True rc l have "getENSInfo env a cid c = (Inr (None, None), c\<lparr>world := w2, trace := trace c @ t\<rparr>)"
        by (simp add: getENSInfo_unfold)
      then show ?thesis by blast
    next
      case (Inr nm)
      obtain av w3 where "resolveAvatar env nm (?c1\<lparr>world := w2\<rparr>) = (Inr av, ?c1\<lparr>world := w2, world := w3\<rparr>)"
        using resolveAvatar_total [of env nm "?c1\<lparr>world := w2\<rparr>"] by auto
      with Inr True rc l have "getENSInfo env a cid c = (Inr (nm, av), c\<lparr>world := w3, trace := trace c @ t\<rparr>)"
        by (simp add: getENSInfo_unfold)
      then show ?thesis by blast
    qed
  qed
qed

lemma getENSInfo_given:
  assumes "truthy cid"
  shows "\<exists>r w'. getENSInfo env a cid c = (Inr r, c\<lparr>world := w'\<rparr>)"
proof -
  have rc: "resolveChainId env cid c = (Inr cid, c)"
    using assms by (rule resolveChainId_given)
  show ?thesis
  proof (cases "cid = Some ''0x1'' \<and> has_ethereum env")
    case False
    with rc have "getENSInfo env a cid c = (Inr (None, None), c\<lparr>world := world c\<rparr>)"
      by (auto simp add: getENSInfo_unfold)
    then show ?thesis by blast
  next
    case True
    obtain l w2 where l: "lookupAddress env a (world c) = (l, w2)"
      by (cases "lookupAddress env a (world c)")
    show ?thesis
    proof (cases l)
      case (Inl e)
      with True rc l have "getENSInfo env a cid c = (Inr (None, None), c\<lparr>world := w2\<rparr>)"
        by (simp add: getENSInfo_unfold)
      then show ?thesis by blast
    next
      case (Inr nm)
      obtain av w3 where "resolveAvatar env nm (c\<lparr>world := w2\<rparr>) = (Inr av, c\<lparr>world := w2, world := w3\<rparr>)"
        using resolveAvatar_total [of env nm "c\<lparr>world := w2\<rparr>"] by auto
      with Inr True rc l have "getENSInfo env a cid c = (Inr (nm, av), c\<lparr>world := w3\<rparr>)"
        by (simp add: getENSInfo_unfold)
      then show ?thesis by blast
    qed
  qed
qed

lemma request_present:
  "has_ethereum env \<Longrightarrow> f (world c) = (res, w') \<Longrightarrow>
   request env r f c = (res, c\<lparr>world := w', trace := trace c @ [r]\<rparr>)"
  by (simp add: request_def)

lemma request_frame:
  "\<exists>res w' t. request env r f c = (res, c\<lparr>world := w', trace := trace c @ t\<rparr>)"
proof (cases "has_ethereum env")
  case False
  then have "request env r f c = (Inl TypeError, c\<lparr>world := world c, trace := trace c @ []\<rparr>)"
    by (simp add: request_def)
  then show ?thesis by blast
next
  case True
  obtain res w' where "f (world c) = (res, w')" by (cases "f (world c)")
  with True show ?thesis using request_present [of env f c res w' r] by blast
qed

text \<open>The common tail of \<open>connectWallet\<close> and \<open>updateWalletState\<close>: it always writes.\<close>

lemma write_tail:
  "\<exists>w' t bal nm av.
     await (getBalance env a)
       (\<lambda>bal. await (getENSInfo env a (Some cid))
          (\<lambda>(name', avatar). sync (set_state (\<lambda>state. state
             \<lparr>address := Some a, chainId := Some cid,
              isConnected := True, balance := bal,
              ensName := name', ensAvatar := avatar,
              userDisconnected := False\<rparr>)))) c
     = (Inr (), c\<lparr>world := w', trace := trace c @ t,
          wallet := (wallet c)\<lparr>address := Some a, chainId := Some cid,
              isConnected := True, balance := bal,
              ensName := nm, ensAvatar := av,
              userDisconnected := False\<rparr>\<rparr>)
     \<and> (cid \<noteq> [] \<longrightarrow> t = [])"
proof -
  obtain bal w1 where b: "getBalance env a c = (Inr bal, c\<lparr>world := w1\<rparr>)"
    using getBalance_total [of env a c] by blast
  let ?c1 = "c\<lparr>world := w1\<rparr>"
  have "\<exists>r w2 t. getENSInfo env a (Some cid) ?c1 = (Inr r, ?c1\<lparr>world := w2, trace := trace ?c1 @ t\<rparr>)
          \<and> (cid \<noteq> [] \<longrightarrow> t = [])"
  proof (cases "cid = []")
    case True
    then show ?thesis using getENSInfo_total [of env a "Some cid" ?c1] by blast
  next
    case False
    then have "truthy (Some cid)" by (simp add: truthy_def)
    then obtain r w2 where "getENSInfo env a (Some cid) ?c1 = (Inr r, ?c1\<lparr>world := w2\<rparr>)"
      using getENSInfo_given [of "Some cid" env a ?c1] by blast
    then have "getENSInfo env a (Some cid) ?c1 = (Inr r, ?c1\<lparr>world := w2, trace := trace ?c1 @ []\<rparr>)"
      by simp
    then show ?thesis by blast
  qed
  then obtain nm av w2 t where
    e: "getENSInfo env a (Some cid) ?c1 = (Inr (nm, av), ?c1\<lparr>world := w2, trace := trace ?c1 @ t\<rparr>)"
    and t: "cid \<noteq> [] \<longrightarrow> t = []"
    by (metis surj_pair)
  from b e have
    "await (getBalance env a)
       (\<lambda>bal. await (getENSInfo env a (Some cid))
          (\<lambda>(name', avatar). sync (set_state (\<lambda>state. state
             \<lparr>address := Some a, chainId := Some cid,
              isConnected := True, balance := bal,
              ensName := name', ensAvatar := avatar,
              userDisconnected := False\<rparr>)))) c
     = (Inr (), c\<lparr>world := w2, trace := trace c @ t,
          wallet := (wallet c)\<lparr>address := Some a, chainId := Some cid,
              isConnected := True, balance := bal,
              ensName := nm, ensAvatar := av,
              userDisconnected := False\<rparr>\<rparr>)"
    by (simp add: await_def sync_def set_state_def)
  with t show ?thesis by blast
qed

section \<open>What the store operations do, case by case\<close>

lemma updateWalletState_given:
  assumes "n \<noteq> []"
  shows "\<exists>w' bal nm av.
           updateWalletState env a (Some n) c =
             (Inr (), c\<lparr>world := w',
                wallet := (wallet c)\<lparr>address := Some a, chainId := Some n,
                  isConnected := True, balance := bal, ensName := nm, ensAvatar := av,
                  userDisconnected := False\<rparr>\<rparr>)"
proof -
  obtain w' t bal nm av where
    "await (getBalance env a)
       (\<lambda>bal. await (getENSInfo env a (Some n))
          (\<lambda>(name', avatar). sync (set_state (\<lambda>state. state
             \<lparr>address := Some a, chainId := Some n,
              isConnected := True, balance := bal,
              ensName := name', ensAvatar := avatar,
              userDisconnected := False\<rparr>)))) c
     = (Inr (), c\<lparr>world := w', trace := trace c @ t,
          wallet := (wallet c)\<lparr>address := Some a, chainId := Some n,
              isConnected := True, balance := bal,
              ensName := nm, ensAvatar := av,
              userDisconnected := False\<rparr>\<rparr>)"
    and "n \<noteq> [] \<longrightarrow> t = []"
    using write_tail [of env a n c] by blast
  with assms have
    "updateWalletState env a (Some n) c =
       (Inr (), c\<lparr>world := w',
          wallet := (wallet c)\<lparr>address := Some a, chainId := Some n,
            isConnected := True, balance := bal, ensName := nm, ensAvatar := av,
            userDisconnected := False\<rparr>\<rparr>)"
    by (simp add: updateWalletState_def try_catch_def await_def [of "return n"] return_def)
  then show ?thesis by blast
qed

text \<open>
  Whatever the provider does, updateWalletState fulfils, and it either wrote nothing or
  wrote a connected state for the given address.
\<close>

lemma updateWalletState_total:
  "\<exists>c'. updateWalletState env a n c = (Inr (), c')
        \<and> alerts c' = alerts c \<and> listeners c' = listeners c
        \<and> (wallet c' = wallet c
           \<or> (address (wallet c') = Some a \<and> isConnected (wallet c')
               \<and> \<not> userDisconnected (wallet c')))"
proof (cases "truthy n")
  case True
  then obtain m where "n = Some m" "m \<noteq> []"
    by (auto simp: truthy_def split: option.splits)
  then show ?thesis using updateWalletState_given [of m env a c] by auto
next
  case False
  then have step: "(case n of
                 None \<Rightarrow> request env Eth_chainId (eth_chainId env)
               | Some n \<Rightarrow> if n = [] then request env Eth_chainId (eth_chainId env)
                           else return n) = request env Eth_chainId (eth_chainId env)"
    by (auto simp: truthy_def split: option.splits)
  obtain res w1 t1 where r: "request env Eth_chainId (eth_chainId env) c
      = (res, c\<lparr>world := w1, trace := trace c @ t1\<rparr>)"
    using request_frame [of env Eth_chainId "eth_chainId env" c] by blast
  let ?c1 = "c\<lparr>world := w1, trace := trace c @ t1\<rparr>"
  show ?thesis
  proof (cases res)
    case (Inl e)
    with r step have "updateWalletState env a n c = (Inr (), ?c1)"
      by (simp add: updateWalletState_def try_catch_def await_def return_def)
    then show ?thesis by simp
  next
    case (Inr cid)
    obtain w' t bal nm av where
      "await (getBalance env a)
         (\<lambda>bal. await (getENSInfo env a (Some cid))
            (\<lambda>(name', avatar). sync (set_state (\<lambda>state. state
               \<lparr>address := Some a, chainId := Some cid,
                isConnected := True, balance := bal,
                ensName := name', ensAvatar := avatar,
                userDisconnected := False\<rparr>)))) ?c1
       = (Inr (), ?c1\<lparr>world := w', trace := trace ?c1 @ t,
            wallet := (wallet ?c1)\<lparr>address := Some a, chainId := Some cid,
                isConnected := True, balance := bal,
                ensName := nm, ensAvatar := av,
                userDisconnected := False\<rparr>\<rparr>)"
      using write_tail [of env a cid ?c1] by blast
    with Inr r step have "updateWalletState env a n c =
         (Inr (), ?c1\<lparr>world := w', trace := trace ?c1 @ t,
            wallet := (wallet ?c1)\<lparr>address := Some a, chainId := Some cid,
                isConnected := True, balance := bal,
                ensName := nm, ensAvatar := av,
                userDisconnected := False\<rparr>\<rparr>)"
      by (simp add: updateWalletState_def try_catch_def await_def return_def)
    then show ?thesis by simp
  qed
qed

lemma await_Inr: "m c = (Inr v, c') \<Longrightarrow> await m f c = f v c'"
  by (simp add: await_def)

lemma connectWallet_absent:
  "\<not> has_ethereum env \<Longrightarrow> connectWallet env c = (Inr (), c\<lparr>alerts := Suc (alerts c)\<rparr>)"
  by (simp add: connectWallet_def isMetaMaskInstalled_def alert_def)

lemma connectWallet_rejected:
  assumes "has_ethereum env" "eth_requestAccounts env (world c) = (Inl e, w1)"
  shows "connectWallet env c = (Inr (), c\<lparr>world := w1, trace := trace c @ [Eth_requestAccounts]\<rparr>)"
  using assms
  by (simp add: connectWallet_def isMetaMaskInstalled_def try_catch_def await_def
        request_def return_def)

lemma connectWallet_no_accounts:
  assumes "has_ethereum env" "eth_requestAccounts env (world c) = (Inr [], w1)"
  shows "connectWallet env c = (Inr (), c\<lparr>world := w1, trace := trace c @ [Eth_requestAccounts]\<rparr>)"
  using assms
  by (simp add: connectWallet_def isMetaMaskInstalled_def try_catch_def await_def
        request_def return_def)

lemma connectWallet_chain_rejected:
  assumes "has_ethereum env" "eth_requestAccounts env (world c) = (Inr (a # as), w1)"
    and "eth_chainId env w1 = (Inl e, w2)"
  shows "connectWallet env c =
           (Inr (), c\<lparr>world := w2, trace := trace c @ [Eth_requestAccounts, Eth_chainId]\<rparr>)"
  using assms
  by (simp add: connectWallet_def isMetaMaskInstalled_def try_catch_def await_def
        request_def return_def)

lemma connectWallet_success:
  assumes "has_ethereum env" "eth_requestAccounts env (world c) = (Inr (a # as), w1)"
    and "eth_chainId env w1 = (Inr cid, w2)"
  shows "\<exists>w' t bal nm av. connectWallet env c =
           (Inr (), c\<lparr>world := w', trace := trace c @ Eth_requestAccounts # Eth_chainId # t,
              wallet := (wallet c)\<lparr>address := Some a, chainId := Some cid,
                isConnected := True, balance := bal, ensName := nm, ensAvatar := av,
                userDisconnected := False\<rparr>\<rparr>)"
proof -
  let ?c2 = "c\<lparr>world := w2, trace := trace c @ [Eth_requestAccounts, Eth_chainId]\<rparr>"
  obtain w' t bal nm av where
    "await (getBalance env a)
       (\<lambda>bal. await (getENSInfo env a (Some cid))
          (\<lambda>(name', avatar). sync (set_state (\<lambda>state. state
             \<lparr>address := Some a, chainId := Some cid,
              isConnected := True, balance := bal,
              ensName := name', ensAvatar := avatar,
              userDisconnected := False\<rparr>)))) ?c2
     = (Inr (), ?c2\<lparr>world := w', trace := trace ?c2 @ t,
          wallet := (wallet ?c2)\<lparr>address := Some a, chainId := Some cid,
              isConnected := True, balance := bal,
              ensName := nm, ensAvatar := av,
              userDisconnected := False\<rparr>\<rparr>)"
    using write_tail [of env a cid ?c2] by blast
  note tail = this
  let ?c1 = "c\<lparr>world := w1, trace := trace c @ [Eth_requestAccounts]\<rparr>"
  have r1: "request env Eth_requestAccounts (eth_requestAccounts env) c = (Inr (a # as), ?c1)"
    using assms by (simp add: request_present)
  have r2: "request env Eth_chainId (eth_chainId env) ?c1 = (Inr cid, ?c2)"
    using assms by (simp add: request_present)
  have "connectWallet env c =
           (Inr (), c\<lparr>world := w', trace := trace c @ Eth_requestAccounts # Eth_chainId # t,
              wallet := (wallet c)\<lparr>address := Some a, chainId := Some cid,
                isConnected := True, balance := bal, ensName := nm, ensAvatar := av,
                userDisconnected := False\<rparr>\<rparr>)"
    using assms(1)
    by (simp add: connectWallet_def isMetaMaskInstalled_def try_catch_def
          await_Inr [of "request env Eth_requestAccounts (eth_requestAccounts env)" c "a # as" ?c1, OF r1]
          await_Inr [of "request env Eth_chainId (eth_chainId env)" ?c1 cid ?c2, OF r2] tail)
  then show ?thesis by blast
qed

lemma connectWallet_total:
  "\<exists>c'. connectWallet env c = (Inr (), c')
        \<and> (wallet c' = wallet c
           \<or> (address (wallet c') \<noteq> None \<and> isConnected (wallet c')
               \<and> \<not> userDisconnected (wallet c')))"
proof (cases "has_ethereum env")
  case False
  then show ?thesis by (simp add: connectWallet_absent)
next
  case True
  obtain r w1 where r: "eth_requestAccounts env (world c) = (r, w1)"
    by (cases "eth_requestAccounts env (world c)")
  show ?thesis
  proof (cases r)
    case (Inl e)
    with True r show ?thesis by (simp add: connectWallet_rejected)
  next
    case (Inr accounts)
    show ?thesis
    proof (cases accounts)
      case Nil
      with Inr True r show ?thesis by (simp add: connectWallet_no_accounts)
    next
      case (Cons a as)
      obtain q w2 where q: "eth_chainId env w1 = (q, w2)" by (cases "eth_chainId env w1")
      show ?thesis
      proof (cases q)
        case (Inl e)
        with Cons Inr True r q show ?thesis by (simp add: connectWallet_chain_rejected)
      next
        case Inr2: (Inr cid)
        with Cons Inr True r q show ?thesis
          using connectWallet_success [of env c a as w1 cid w2] by auto
      qed
    qed
  qed
qed

text \<open>The cases of \<open>switchNetwork\<close>.\<close>

lemma updateAfterSwitch_connected:
  assumes "address (wallet c) = Some a" "a \<noteq> []"
  shows "updateAfterSwitch env net c = updateWalletState env a (Some (network.chainId net)) c"
  using assms by (simp add: updateAfterSwitch_def await_def get_state_def)

lemma updateAfterSwitch_idle:
  assumes "\<not> truthy (address (wallet c))"
  shows "updateAfterSwitch env net c = (Inr (), c)"
  using assms
  by (auto simp: updateAfterSwitch_def await_def get_state_def return_def truthy_def
           split: option.splits)

lemma updateAfterSwitch_total:
  "\<exists>c'. updateAfterSwitch env net c = (Inr (), c')
        \<and> alerts c' = alerts c \<and> listeners c' = listeners c
        \<and> (wallet c' = wallet c
           \<or> (address (wallet c') \<noteq> None \<and> isConnected (wallet c')
               \<and> \<not> userDisconnected (wallet c')))"
proof (cases "truthy (address (wallet c))")
  case False
  then show ?thesis by (simp add: updateAfterSwitch_idle)
next
  case True
  then obtain a where a: "address (wallet c) = Some a" "a \<noteq> []"
    by (auto simp: truthy_def split: option.splits)
  then show ?thesis
    using updateWalletState_total [of env a "Some (network.chainId net)" c]
    by (auto simp: updateAfterSwitch_connected)
qed

lemma switchNetwork_absent: "\<not> has_ethereum env \<Longrightarrow> switchNetwork env k c = (Inr (), c)"
  by (simp add: switchNetwork_def return_def)

lemma switchNetwork_switched:
  assumes "has_ethereum env"
    and "wallet_switchEthereumChain env (network.chainId (NETWORKS k)) (world c) = (Inr u, w1)"
  shows "switchNetwork env k c =
           updateAfterSwitch env (NETWORKS k)
             (c\<lparr>world := w1,
                trace := trace c @ [Wallet_switchEthereumChain (network.chainId (NETWORKS k))]\<rparr>)"
proof -
  let ?c1 = "c\<lparr>world := w1,
                trace := trace c @ [Wallet_switchEthereumChain (network.chainId (NETWORKS k))]\<rparr>"
  obtain c' where "updateAfterSwitch env (NETWORKS k) ?c1 = (Inr (), c')"
    using updateAfterSwitch_total [of env "NETWORKS k" ?c1] by blast
  with assms show ?thesis
    by (simp add: switchNetwork_def Let_def try_catch_def await_def request_def)
qed

lemma switchNetwork_other_error:
  assumes "has_ethereum env"
    and "wallet_switchEthereumChain env (network.chainId (NETWORKS k)) (world c) = (Inl e, w1)"
    and "error_code e \<noteq> Some 4902"
  shows "switchNetwork env k c =
           (Inr (), c\<lparr>world := w1,
                trace := trace c @ [Wallet_switchEthereumChain (network.chainId (NETWORKS k))]\<rparr>)"
  using assms
  by (simp add: switchNetwork_def Let_def try_catch_def await_def request_def return_def)

lemma switchNetwork_add_rejected:
  assumes "has_ethereum env"
    and "wallet_switchEthereumChain env (network.chainId (NETWORKS k)) (world c) = (Inl e, w1)"
    and "error_code e = Some 4902"
    and "wallet_addEthereumChain env (NETWORKS k) w1 = (Inl e2, w2)"
  shows "switchNetwork env k c =
           (Inr (), c\<lparr>world := w2,
                trace := trace c @ [Wallet_switchEthereumChain (network.chainId (NETWORKS k)),
                                    Wallet_addEthereumChain (NETWORKS k)]\<rparr>)"
  using assms
  by (simp add: switchNetwork_def Let_def try_catch_def await_def request_def return_def)

lemma switchNetwork_added:
  assumes "has_ethereum env"
    and "wallet_switchEthereumChain env (network.chainId (NETWORKS k)) (world c) = (Inl e, w1)"
    and "error_code e = Some 4902"
    and "wallet_addEthereumChain env (NETWORKS k) w1 = (Inr u, w2)"
  shows "switchNetwork env k c =
           updateAfterSwitch env (NETWORKS k)
             (c\<lparr>world := w2,
                trace := trace c @ [Wallet_switchEthereumChain (network.chainId (NETWORKS k)),
                                    Wallet_addEthereumChain (NETWORKS k)]\<rparr>)"
proof -
  let ?c2 = "c\<lparr>world := w2,
                trace := trace c @ [Wallet_switchEthereumChain (network.chainId (NETWORKS k)),
                                    Wallet_addEthereumChain (NETWORKS k)]\<rparr>"
  obtain c' where "updateAfterSwitch env (NETWORKS k) ?c2 = (Inr (), c')"
    using updateAfterSwitch_total [of env "NETWORKS k" ?c2] by blast
  with assms show ?thesis
    by (simp add: switchNetwork_def Let_def try_catch_def await_def request_def)
qed

section \<open>The claims about the store and the controller\<close>

lemma switchNetwork_total:
  "\<exists>c'. switchNetwork env k c = (Inr (), c')
        \<and> (wallet c' = wallet c
           \<or> (address (wallet c') \<noteq> None \<and> isConnected (wallet c')
               \<and> \<not> userDisconnected (wallet c')))"
proof (cases "has_ethereum env")
  case False
  then show ?thesis by (simp add: switchNetwork_absent)
next
  case True
  let ?sw = "Wallet_switchEthereumChain (network.chainId (NETWORKS k))"
  obtain r w1 where r: "wallet_switchEthereumChain env (network.chainId (NETWORKS k)) (world c) = (r, w1)"
    by (cases "wallet_switchEthereumChain env (network.chainId (NETWORKS k)) (world c)")
  show ?thesis
  proof (cases r)
    case (Inr u)
    with True r show ?thesis
      using updateAfterSwitch_total [of env "NETWORKS k" "c\<lparr>world := w1, trace := trace c @ [?sw]\<rparr>"]
      by (auto simp: switchNetwork_switched)
  next
    case (Inl e)
    show ?thesis
    proof (cases "error_code e = Some 4902")
      case False
      with Inl True r show ?thesis by (simp add: switchNetwork_other_error)
    next
      case code: True
      obtain q w2 where q: "wallet_addEthereumChain env (NETWORKS k) w1 = (q, w2)"
        by (cases "wallet_addEthereumChain env (NETWORKS k) w1")
      show ?thesis
      proof (cases q)
        case Inl2: (Inl e2)
        with code Inl True r q show ?thesis by (simp add: switchNetwork_add_rejected)
      next
        case Inr2: (Inr u)
        with code Inl True r q show ?thesis
          using updateAfterSwitch_total [of env "NETWORKS k"
                  "c\<lparr>world := w2, trace := trace c @ [?sw, Wallet_addEthereumChain (NETWORKS k)]\<rparr>"]
          by (auto simp: switchNetwork_added)
      qed
    qed
  qed
qed

lemma inv_step:
  assumes "state_inv s"
    and "s' = s \<or> (address s' \<noteq> None \<and> isConnected s' \<and> \<not> userDisconnected s')"
  shows "state_inv s'"
  using assms by (auto simp: state_inv_def)

text \<open>
  Claim C1 says that every public store operation, \<open>setWallet\<close> with an arbitrary
  partial record included, preserves the invariant \<open>isConnected = (address \<noteq> null)\<close>.
  \<open>setWallet\<close> merges without validation: on the freshly created store, which satisfies
  the invariant, the partial record \<open>{isConnected: true}\<close> leaves a state that is
  connected and has no address.
\<close>

theorem setWallet_breaks_invariant:
  "state_inv (wallet freshConf)
   \<and> \<not> state_inv (wallet (setWallet
          \<lparr>address_opt = None, chainId_opt = None, isConnected_opt = Some True,
           balance_opt = None, ensName_opt = None, ensAvatar_opt = None,
           userDisconnected_opt = None\<rparr> freshConf))"
  by (simp add: state_inv_def freshConf_def initialState_def setWallet_def set_state_def
        merge_def)

text \<open>
  Claim C1, as the code has it. From any state satisfying
  \<open>isConnected = (address \<noteq> null)\<close>, the operations \<open>resetWallet\<close>,
  \<open>disconnectWallet\<close>, \<open>connectWallet\<close>, \<open>updateWalletState\<close> and \<open>switchNetwork\<close>
  end in a state satisfying it, for every argument and every behaviour of the provider.
  \<open>setWallet\<close> does so when the partial record leaves out both \<open>address\<close> and
  \<open>isConnected\<close>, and when it sets both consistently with each other.
\<close>

theorem store_operations_preserve_invariant:
  assumes "state_inv (wallet c)"
  shows "state_inv (wallet (resetWallet c))
       \<and> state_inv (wallet (disconnectWallet c))
       \<and> state_inv (wallet (snd (connectWallet env c)))
       \<and> state_inv (wallet (snd (updateWalletState env a n c)))
       \<and> state_inv (wallet (snd (switchNetwork env k c)))
       \<and> (address_opt p = None \<and> isConnected_opt p = None
            \<longrightarrow> state_inv (wallet (setWallet p c)))
       \<and> (\<forall>a' b. address_opt p = Some a' \<and> isConnected_opt p = Some b \<and> (b \<longleftrightarrow> a' \<noteq> None)
            \<longrightarrow> state_inv (wallet (setWallet p c)))"
proof -
  have 1: "state_inv (wallet (resetWallet c))"
    by (simp add: resetWallet_def set_state_def state_inv_def)
  have 2: "state_inv (wallet (disconnectWallet c))"
    by (simp add: disconnectWallet_def set_state_def state_inv_def)
  have 3: "state_inv (wallet (snd (connectWallet env c)))"
    using connectWallet_total [of env c] inv_step [OF assms] by auto
  have 4: "state_inv (wallet (snd (updateWalletState env a n c)))"
    using updateWalletState_total [of env a n c] inv_step [OF assms] by auto
  have 5: "state_inv (wallet (snd (switchNetwork env k c)))"
    using switchNetwork_total [of env k c] inv_step [OF assms] by auto
  have 6: "state_inv (wallet (setWallet p c))"
    if "address_opt p = None \<and> isConnected_opt p = None"
    using that assms by (simp add: setWallet_def set_state_def merge_def state_inv_def)
  have 7: "state_inv (wallet (setWallet p c))"
    if "address_opt p = Some a'" "isConnected_opt p = Some b" "b \<longleftrightarrow> a' \<noteq> None" for a' b
    using that by (simp add: setWallet_def set_state_def merge_def state_inv_def)
  from 1 2 3 4 5 6 7 show ?thesis by blast
qed

theorem store_operations_preserve_invariant_witness:
  "state_inv (wallet freshConf)
   \<and> state_inv (wallet (snd (connectWallet mainnetEnv freshConf)))
   \<and> state_inv (wallet (snd (switchNetwork unknownChainEnv bsc freshConf)))
   \<and> state_inv (wallet (setWallet
          \<lparr>address_opt = Some (Some ''0xabc''), chainId_opt = None, isConnected_opt = Some True,
           balance_opt = None, ensName_opt = None, ensAvatar_opt = None,
           userDisconnected_opt = None\<rparr> freshConf))"
proof -
  have h: "state_inv (wallet freshConf)"
    by (simp add: state_inv_def freshConf_def initialState_def)
  let ?p = "\<lparr>address_opt = Some (Some ''0xabc''), chainId_opt = None, isConnected_opt = Some True,
           balance_opt = None, ensName_opt = None, ensAvatar_opt = None,
           userDisconnected_opt = None\<rparr>"
  from store_operations_preserve_invariant [OF h, of mainnetEnv _ _ _ ?p]
  have a: "state_inv (wallet (snd (connectWallet mainnetEnv freshConf)))"
    and c: "state_inv (wallet (setWallet ?p freshConf))"
    by simp_all
  from store_operations_preserve_invariant [OF h, of unknownChainEnv _ _ bsc]
  have b: "state_inv (wallet (snd (switchNetwork unknownChainEnv bsc freshConf)))"
    by simp
  from h a b c show ?thesis by simp
qed

text \<open>
  Claim C2 says that \<open>connectWallet\<close> leaves the state unchanged whenever a provider
  call rejects or a network error occurs. The balance lookup is such a call, and its
  failure is caught inside \<open>getBalance\<close>, which answers \<open>"0"\<close>: with a provider that
  grants the account \<open>0xabc\<close> on chain \<open>0x38\<close> and fails the balance lookup,
  \<open>connectWallet\<close> on the fresh store fulfils and writes a connected state with
  balance \<open>"0"\<close>.
\<close>

theorem connectWallet_balance_failure_still_writes:
  "provider_getBalance balanceFailsEnv ''0xabc'' (world freshConf) = (Inl (ProviderError None), ())
   \<and> fst (connectWallet balanceFailsEnv freshConf) = Inr ()
   \<and> wallet (snd (connectWallet balanceFailsEnv freshConf)) =
       \<lparr>address = Some ''0xabc'', chainId = Some ''0x38'', isConnected = True,
        balance = ''0'', ensName = None, ensAvatar = None, userDisconnected = False\<rparr>
   \<and> wallet (snd (connectWallet balanceFailsEnv freshConf)) \<noteq> wallet freshConf"
proof -
  have "connectWallet balanceFailsEnv freshConf =
          (Inr (), \<lparr>wallet = \<lparr>address = Some ''0xabc'', chainId = Some ''0x38'',
                      isConnected = True, balance = ''0'', ensName = None, ensAvatar = None,
                      userDisconnected = False\<rparr>,
                    world = (), trace = [Eth_requestAccounts, Eth_chainId], alerts = 0,
                    listeners = []\<rparr>)"
    by (simp add: balanceFailsEnv_def statelessEnv_def freshConf_def initialState_def
          connectWallet_def isMetaMaskInstalled_def getBalance_def getENSInfo_def
          resolveChainId_def truthy_def return_def await_def try_catch_def sync_def
          set_state_def request_def library_call_def)
  then show ?thesis
    by (simp add: freshConf_def initialState_def balanceFailsEnv_def statelessEnv_def)
qed

text \<open>
  Claim C2, as the code has it. For every starting state, if the account request
  rejects, or the chain-id query that \<open>connectWallet\<close> makes after it rejects, then
  \<open>connectWallet\<close> completes without throwing and the \<open>WalletState\<close> afterwards equals
  the \<open>WalletState\<close> before: no field is written.
\<close>

theorem connectWallet_atomic_on_rejection:
  assumes "(\<exists>e w1. eth_requestAccounts env (world c) = (Inl e, w1))
         \<or> (\<exists>accounts w1 e w2. eth_requestAccounts env (world c) = (Inr accounts, w1)
               \<and> eth_chainId env w1 = (Inl e, w2))"
  shows "fst (connectWallet env c) = Inr () \<and> wallet (snd (connectWallet env c)) = wallet c"
proof (cases "has_ethereum env")
  case False
  then show ?thesis by (simp add: connectWallet_absent)
next
  case True
  from assms show ?thesis
  proof (elim disjE exE conjE)
    fix e w1 assume "eth_requestAccounts env (world c) = (Inl e, w1)"
    with True show ?thesis by (simp add: connectWallet_rejected)
  next
    fix accounts w1 e w2
    assume r: "eth_requestAccounts env (world c) = (Inr accounts, w1)"
      and q: "eth_chainId env w1 = (Inl e, w2)"
    show ?thesis
    proof (cases accounts)
      case Nil
      with True r show ?thesis by (simp add: connectWallet_no_accounts)
    next
      case (Cons a as)
      with True r q show ?thesis by (simp add: connectWallet_chain_rejected)
    qed
  qed
qed

theorem connectWallet_atomic_on_rejection_witness:
  "eth_requestAccounts userRejectsEnv (world connectedConf) = (Inl (ProviderError (Some 4001)), ())
   \<and> fst (connectWallet userRejectsEnv connectedConf) = Inr ()
   \<and> wallet (snd (connectWallet userRejectsEnv connectedConf)) = wallet connectedConf"
proof -
  have h: "eth_requestAccounts userRejectsEnv (world connectedConf)
             = (Inl (ProviderError (Some 4001)), ())"
    by (simp add: userRejectsEnv_def statelessEnv_def)
  then have "(\<exists>e w1. eth_requestAccounts userRejectsEnv (world connectedConf) = (Inl e, w1))
         \<or> (\<exists>accounts w1 e w2.
               eth_requestAccounts userRejectsEnv (world connectedConf) = (Inr accounts, w1)
               \<and> eth_chainId userRejectsEnv w1 = (Inl e, w2))"
    by blast
  from connectWallet_atomic_on_rejection [OF this] h show ?thesis by simp
qed

text \<open>
  Claim C3. For every starting state and every non-empty account list returned by the
  provider, after \<open>connectWallet\<close> succeeds (a provider is present and the chain-id
  query resolves) the state has \<open>isConnected = true\<close>, \<open>userDisconnected = false\<close> and
  \<open>address\<close> equal to the first account of the list; \<open>chainId\<close> is the provider's
  answer.
\<close>

theorem connectWallet_connects_first_account:
  assumes "has_ethereum env"
    and "eth_requestAccounts env (world c) = (Inr (a # as), w1)"
    and "eth_chainId env w1 = (Inr cid, w2)"
  shows "fst (connectWallet env c) = Inr ()
       \<and> isConnected (wallet (snd (connectWallet env c)))
       \<and> \<not> userDisconnected (wallet (snd (connectWallet env c)))
       \<and> address (wallet (snd (connectWallet env c))) = Some a
       \<and> chainId (wallet (snd (connectWallet env c))) = Some cid"
  using connectWallet_success [OF assms] by auto

theorem connectWallet_connects_first_account_witness:
  "has_ethereum mainnetEnv
   \<and> eth_requestAccounts mainnetEnv (world optedOutConf) = (Inr [''0xabc'', ''0xdef''], ())
   \<and> eth_chainId mainnetEnv () = (Inr ''0x1'', ())
   \<and> userDisconnected (wallet optedOutConf)
   \<and> isConnected (wallet (snd (connectWallet mainnetEnv optedOutConf)))
   \<and> \<not> userDisconnected (wallet (snd (connectWallet mainnetEnv optedOutConf)))
   \<and> address (wallet (snd (connectWallet mainnetEnv optedOutConf))) = Some ''0xabc''"
proof -
  have h1: "has_ethereum mainnetEnv" by (simp add: mainnetEnv_def statelessEnv_def)
  have h2: "eth_requestAccounts mainnetEnv (world optedOutConf) = (Inr (''0xabc'' # [''0xdef'']), ())"
    by (simp add: mainnetEnv_def statelessEnv_def)
  have h3: "eth_chainId mainnetEnv () = (Inr ''0x1'', ())"
    by (simp add: mainnetEnv_def statelessEnv_def)
  have h4: "userDisconnected (wallet optedOutConf)"
    by (simp add: optedOutConf_def disconnectWallet_def set_state_def)
  from connectWallet_connects_first_account [OF h1 h2 h3] h1 h2 h3 h4 show ?thesis by simp
qed

text \<open>
  Claim C4. For every starting state, after \<open>disconnectWallet\<close> the state is exactly
  \<open>address = null\<close>, \<open>chainId = null\<close>, \<open>isConnected = false\<close>, \<open>balance = "0"\<close>,
  \<open>ensName = null\<close>, \<open>ensAvatar = null\<close>, \<open>userDisconnected = true\<close>; and the
  controller's handler for \<open>accountsChanged\<close>, given an empty account list, does
  nothing but call \<open>disconnectWallet\<close>, whatever address its closure holds, so the state
  becomes this fully disconnected one.
\<close>

theorem disconnectWallet_resets:
  "wallet (disconnectWallet c) =
     \<lparr>address = None, chainId = None, isConnected = False, balance = ''0'',
      ensName = None, ensAvatar = None, userDisconnected = True\<rparr>
   \<and> handleAccountsChanged env addr [] c = (Inr (), disconnectWallet c)
   \<and> wallet (snd (handleAccountsChanged env addr [] c)) =
     \<lparr>address = None, chainId = None, isConnected = False, balance = ''0'',
      ensName = None, ensAvatar = None, userDisconnected = True\<rparr>"
  by (simp add: disconnectWallet_def set_state_def handleAccountsChanged_def sync_def)

text \<open>
  Claim C7. On mount, if \<open>userDisconnected\<close> is true, or if the state is already
  connected, the initial check returns at once: the \<open>WalletState\<close> is unchanged and no
  request at all is sent to the provider, so no silent \<open>updateWalletState\<close> happens
  whatever accounts the provider would report.
\<close>

theorem mount_respects_opt_out:
  assumes "userDisconnected (wallet c) \<or> isConnected (wallet c)"
  shows "checkInitialConnection env (userDisconnected (wallet c)) (isConnected (wallet c)) c
           = (Inr (), c)
       \<and> fst (mount env c) = Inr ()
       \<and> wallet (snd (mount env c)) = wallet c
       \<and> trace (snd (mount env c)) = trace c
       \<and> world (snd (mount env c)) = world c"
  using assms
  by (auto simp: checkInitialConnection_def mount_def return_def Let_def)

theorem mount_respects_opt_out_witness:
  "userDisconnected (wallet optedOutConf)
   \<and> eth_accounts mainnetEnv (world optedOutConf) = (Inr [''0xabc'', ''0xdef''], ())
   \<and> wallet (snd (mount mainnetEnv optedOutConf)) = wallet optedOutConf
   \<and> trace (snd (mount mainnetEnv optedOutConf)) = trace optedOutConf
   \<and> isConnected (wallet connectedConf)
   \<and> wallet (snd (mount mainnetEnv connectedConf)) = wallet connectedConf"
proof -
  have h: "userDisconnected (wallet optedOutConf)"
    by (simp add: optedOutConf_def disconnectWallet_def set_state_def)
  have g: "isConnected (wallet connectedConf)"
    by (simp add: connectedConf_def)
  have a: "eth_accounts mainnetEnv (world optedOutConf) = (Inr [''0xabc'', ''0xdef''], ())"
    by (simp add: mainnetEnv_def statelessEnv_def)
  from h have h': "userDisconnected (wallet optedOutConf) \<or> isConnected (wallet optedOutConf)" ..
  from g have g': "userDisconnected (wallet connectedConf) \<or> isConnected (wallet connectedConf)" ..
  from mount_respects_opt_out [OF h', of mainnetEnv] mount_respects_opt_out [OF g', of mainnetEnv]
    h g a
  show ?thesis by simp
qed

lemma NETWORKS_chainId_nonempty: "network.chainId (NETWORKS k) \<noteq> []"
  by (cases k) simp_all

text \<open>
  Claim C5. For every network key, when the provider rejects the
  \<open>wallet_switchEthereumChain\<close> request of \<open>switchNetwork\<close> with error code 4902,
  exactly one more request follows: \<open>wallet_addEthereumChain\<close> with that network's
  whole record of the table as payload. When the add succeeds and the store holds a
  (truthy) address, \<open>switchNetwork\<close> continues as \<open>updateWalletState\<close> for that address
  and the target chain id, which ends connected on that chain; when no address is
  held, the state is not touched. \<open>switchNetwork\<close> does not throw.
\<close>

theorem switchNetwork_adds_unknown_chain:
  assumes "has_ethereum env"
    and "wallet_switchEthereumChain env (network.chainId (NETWORKS k)) (world c) = (Inl e, w1)"
    and "error_code e = Some 4902"
    and "wallet_addEthereumChain env (NETWORKS k) w1 = (added, w2)"
  shows "fst (switchNetwork env k c) = Inr ()
       \<and> trace (snd (switchNetwork env k c)) =
           trace c @ [Wallet_switchEthereumChain (network.chainId (NETWORKS k)),
                      Wallet_addEthereumChain (NETWORKS k)]
       \<and> (added = Inr () \<longrightarrow>
            (\<forall>a. address (wallet c) = Some a \<and> a \<noteq> [] \<longrightarrow>
               switchNetwork env k c =
                 updateWalletState env a (Some (network.chainId (NETWORKS k)))
                   (c\<lparr>world := w2,
                      trace := trace c @ [Wallet_switchEthereumChain (network.chainId (NETWORKS k)),
                                          Wallet_addEthereumChain (NETWORKS k)]\<rparr>)
               \<and> address (wallet (snd (switchNetwork env k c))) = Some a
               \<and> chainId (wallet (snd (switchNetwork env k c))) = Some (network.chainId (NETWORKS k))
               \<and> isConnected (wallet (snd (switchNetwork env k c)))
               \<and> \<not> userDisconnected (wallet (snd (switchNetwork env k c))))
            \<and> (\<not> truthy (address (wallet c)) \<longrightarrow>
                 wallet (snd (switchNetwork env k c)) = wallet c))
       \<and> (added \<noteq> Inr () \<longrightarrow> wallet (snd (switchNetwork env k c)) = wallet c)"
proof (cases added)
  case (Inl e2)
  with assms have "switchNetwork env k c =
           (Inr (), c\<lparr>world := w2,
                trace := trace c @ [Wallet_switchEthereumChain (network.chainId (NETWORKS k)),
                                    Wallet_addEthereumChain (NETWORKS k)]\<rparr>)"
    by (simp add: switchNetwork_add_rejected)
  with Inl show ?thesis by simp
next
  case (Inr u)
  let ?c2 = "c\<lparr>world := w2,
                trace := trace c @ [Wallet_switchEthereumChain (network.chainId (NETWORKS k)),
                                    Wallet_addEthereumChain (NETWORKS k)]\<rparr>"
  from Inr assms have sw: "switchNetwork env k c = updateAfterSwitch env (NETWORKS k) ?c2"
    by (simp add: switchNetwork_added)
  show ?thesis
  proof (cases "truthy (address (wallet c))")
    case False
    then have "\<not> truthy (address (wallet ?c2))" by simp
    then have "updateAfterSwitch env (NETWORKS k) ?c2 = (Inr (), ?c2)"
      by (rule updateAfterSwitch_idle)
    with sw False Inr show ?thesis by (auto simp: truthy_def)
  next
    case True
    then obtain a where a: "address (wallet c) = Some a" "a \<noteq> []"
      by (auto simp: truthy_def split: option.splits)
    then have "address (wallet ?c2) = Some a" by simp
    with a have up: "updateAfterSwitch env (NETWORKS k) ?c2 =
        updateWalletState env a (Some (network.chainId (NETWORKS k))) ?c2"
      by (simp add: updateAfterSwitch_connected)
    obtain w' bal nm av where
      "updateWalletState env a (Some (network.chainId (NETWORKS k))) ?c2 =
             (Inr (), ?c2\<lparr>world := w',
                wallet := (wallet ?c2)\<lparr>address := Some a,
                  chainId := Some (network.chainId (NETWORKS k)),
                  isConnected := True, balance := bal, ensName := nm, ensAvatar := av,
                  userDisconnected := False\<rparr>\<rparr>)"
      using updateWalletState_given [OF NETWORKS_chainId_nonempty, of env a k ?c2] by blast
    with sw up a True Inr show ?thesis by simp
  qed
qed

theorem switchNetwork_adds_unknown_chain_witness:
  "has_ethereum unknownChainEnv
   \<and> wallet_switchEthereumChain unknownChainEnv ''0x38'' (world connectedConf)
       = (Inl (ProviderError (Some 4902)), ())
   \<and> wallet_addEthereumChain unknownChainEnv (NETWORKS bsc) () = (Inr (), ())
   \<and> address (wallet connectedConf) = Some ''0xabc''
   \<and> trace (snd (switchNetwork unknownChainEnv bsc connectedConf)) =
       [Wallet_switchEthereumChain ''0x38'', Wallet_addEthereumChain (NETWORKS bsc)]
   \<and> address (wallet (snd (switchNetwork unknownChainEnv bsc connectedConf))) = Some ''0xabc''
   \<and> chainId (wallet (snd (switchNetwork unknownChainEnv bsc connectedConf))) = Some ''0x38''"
proof -
  have h1: "has_ethereum unknownChainEnv"
    by (simp add: unknownChainEnv_def statelessEnv_def)
  have h2: "wallet_switchEthereumChain unknownChainEnv (network.chainId (NETWORKS bsc))
              (world connectedConf) = (Inl (ProviderError (Some 4902)), ())"
    by (simp add: unknownChainEnv_def statelessEnv_def)
  have h3: "error_code (ProviderError (Some 4902)) = Some 4902" by simp
  have h4: "wallet_addEthereumChain unknownChainEnv (NETWORKS bsc) () = (Inr (), ())"
    by (simp add: unknownChainEnv_def statelessEnv_def)
  have h5: "address (wallet connectedConf) = Some ''0xabc''" "trace connectedConf = []"
    by (simp_all add: connectedConf_def)
  note sw = switchNetwork_adds_unknown_chain [OF h1 h2 h3 h4]
  from sw have t: "trace (snd (switchNetwork unknownChainEnv bsc connectedConf)) =
      trace connectedConf @ [Wallet_switchEthereumChain (network.chainId (NETWORKS bsc)),
                             Wallet_addEthereumChain (NETWORKS bsc)]"
    by blast
  from sw have "\<forall>a. address (wallet connectedConf) = Some a \<and> a \<noteq> [] \<longrightarrow>
      address (wallet (snd (switchNetwork unknownChainEnv bsc connectedConf))) = Some a
      \<and> chainId (wallet (snd (switchNetwork unknownChainEnv bsc connectedConf)))
          = Some (network.chainId (NETWORKS bsc))"
    by blast
  with t h5
  have "trace (snd (switchNetwork unknownChainEnv bsc connectedConf)) =
       [Wallet_switchEthereumChain ''0x38'', Wallet_addEthereumChain (NETWORKS bsc)]
   \<and> address (wallet (snd (switchNetwork unknownChainEnv bsc connectedConf))) = Some ''0xabc''
   \<and> chainId (wallet (snd (switchNetwork unknownChainEnv bsc connectedConf))) = Some ''0x38''"
    by simp
  with h1 h2 h4 h5 show ?thesis by simp
qed

text \<open>
  Claim C6. \<open>getENSInfo\<close> never rejects. The resolved chain id is the argument if it
  is given (truthy), otherwise the answer of a live \<open>eth_chainId\<close> query (the argument
  again if there is no provider or the query rejects). A non-null \<open>ensName\<close> or
  \<open>ensAvatar\<close> is returned only when the resolved chain id is \<open>"0x1"\<close>; on any other
  chain, and when the name lookup itself fails, the result is \<open>{null, null}\<close>; and when
  only the avatar resolution fails (the resolver lookup or the avatar query rejects),
  the result is the resolved name with a null avatar.
\<close>

theorem getENSInfo_mainnet_only:
  assumes "resolveChainId env cid c = (rc, c1)" and "getENSInfo env a cid c = (res, c2)"
  shows "rc = Inr (if truthy cid \<or> \<not> has_ethereum env then cid
                   else case fst (eth_chainId env (world c)) of
                          Inl e \<Rightarrow> cid | Inr x \<Rightarrow> Some x)
       \<and> (\<exists>nm av. res = Inr (nm, av)
             \<and> (nm \<noteq> None \<or> av \<noteq> None \<longrightarrow> rc = Inr (Some ''0x1'')))
       \<and> (rc \<noteq> Inr (Some ''0x1'') \<longrightarrow> res = Inr (None, None))
       \<and> (\<forall>e w. lookupAddress env a (world c1) = (Inl e, w) \<longrightarrow> res = Inr (None, None))
       \<and> (\<forall>n w. rc = Inr (Some ''0x1'') \<and> has_ethereum env
                 \<and> lookupAddress env a (world c1) = (Inr (Some n), w) \<and> n \<noteq> []
                 \<and> ((\<exists>e w'. getResolver env n w = (Inl e, w'))
                    \<or> (\<exists>r w' e w''. getResolver env n w = (Inr (Some r), w')
                          \<and> getAvatar env r w' = (Inl e, w'')))
              \<longrightarrow> res = Inr (Some n, None))"
proof -
  have p1: "rc = Inr (if truthy cid \<or> \<not> has_ethereum env then cid
                   else case fst (eth_chainId env (world c)) of
                          Inl e \<Rightarrow> cid | Inr x \<Rightarrow> Some x)"
  proof (cases "truthy cid \<or> \<not> has_ethereum env")
    case True
    with assms(1) show ?thesis
      by (auto simp: resolveChainId_given resolveChainId_absent)
  next
    case False
    obtain r w' where "eth_chainId env (world c) = (r, w')"
      by (cases "eth_chainId env (world c)")
    with False assms(1) show ?thesis
      using resolveChainId_query [of cid env c r w'] by auto
  qed
  then obtain cur where cur: "rc = Inr cur" by blast
  note unf = getENSInfo_unfold [of env a cid c, unfolded assms cur, simplified]
  have p3: "res = Inr (None, None)" if "rc \<noteq> Inr (Some ''0x1'')"
    using that unf cur by auto
  have p4: "res = Inr (None, None)" if "lookupAddress env a (world c1) = (Inl e, w)" for e w
    using that unf by (auto split: if_splits)
  have p2: "\<exists>nm av. res = Inr (nm, av) \<and> (nm \<noteq> None \<or> av \<noteq> None \<longrightarrow> rc = Inr (Some ''0x1''))"
    using unf cur by (auto split: if_splits prod.splits sum.splits)
  have p5: "res = Inr (Some n, None)"
    if h: "rc = Inr (Some ''0x1'')" "has_ethereum env"
       "lookupAddress env a (world c1) = (Inr (Some n), w)" "n \<noteq> []"
       "(\<exists>e w'. getResolver env n w = (Inl e, w'))
        \<or> (\<exists>r w' e w''. getResolver env n w = (Inr (Some r), w')
              \<and> getAvatar env r w' = (Inl e, w''))" for n w
  proof -
    from h(4,5) have "fst (resolveAvatar env (Some n) (c1\<lparr>world := w\<rparr>)) = Inr None"
      by (auto simp: resolveAvatar_def try_catch_def await_def library_call_def return_def)
    with h(1-3) unf cur show ?thesis
      by (auto split: prod.splits sum.splits)
  qed
  from p1 p2 p3 p4 p5 show ?thesis by blast
qed

theorem getENSInfo_mainnet_only_witness:
  "resolveChainId avatarFailsEnv None freshConf
     = (Inr (Some ''0x1''), freshConf\<lparr>trace := [Eth_chainId]\<rparr>)
   \<and> lookupAddress avatarFailsEnv ''0xabc'' () = (Inr (Some ''alice.eth''), ())
   \<and> getResolver avatarFailsEnv ''alice.eth'' () = (Inl (ProviderError None), ())
   \<and> fst (getENSInfo avatarFailsEnv ''0xabc'' None freshConf) = Inr (Some ''alice.eth'', None)"
proof -
  let ?c1 = "freshConf\<lparr>trace := [Eth_chainId]\<rparr>"
  have h1: "resolveChainId avatarFailsEnv None freshConf = (Inr (Some ''0x1''), ?c1)"
    by (simp add: resolveChainId_def truthy_def try_catch_def await_def request_def return_def
          avatarFailsEnv_def statelessEnv_def freshConf_def)
  have h2: "getENSInfo avatarFailsEnv ''0xabc'' None freshConf
              = (fst (getENSInfo avatarFailsEnv ''0xabc'' None freshConf),
                 snd (getENSInfo avatarFailsEnv ''0xabc'' None freshConf))"
    by simp
  have h3: "has_ethereum avatarFailsEnv"
    by (simp add: avatarFailsEnv_def statelessEnv_def)
  have h4: "lookupAddress avatarFailsEnv ''0xabc'' (world ?c1) = (Inr (Some ''alice.eth''), ())"
    by (simp add: avatarFailsEnv_def statelessEnv_def)
  have h5: "getResolver avatarFailsEnv ''alice.eth'' () = (Inl (ProviderError None), ())"
    by (simp add: avatarFailsEnv_def statelessEnv_def)
  from getENSInfo_mainnet_only [OF h1 h2]
  have "\<forall>n w. Inr (Some ''0x1'') = (Inr (Some ''0x1'') :: js_error + string option)
               \<and> has_ethereum avatarFailsEnv
               \<and> lookupAddress avatarFailsEnv ''0xabc'' (world ?c1) = (Inr (Some n), w) \<and> n \<noteq> []
               \<and> ((\<exists>e w'. getResolver avatarFailsEnv n w = (Inl e, w'))
                  \<or> (\<exists>r w' e w''. getResolver avatarFailsEnv n w = (Inr (Some r), w')
                        \<and> getAvatar avatarFailsEnv r w' = (Inl e, w'')))
            \<longrightarrow> fst (getENSInfo avatarFailsEnv ''0xabc'' None freshConf) = Inr (Some n, None)"
    by blast
  with h3 h4 h5 have "fst (getENSInfo avatarFailsEnv ''0xabc'' None freshConf)
                        = Inr (Some ''alice.eth'', None)"
    by fastforce
  with h1 h4 h5 show ?thesis by simp
qed

end
